theory Spec2Isabelle
  imports Complex_Main "HOL-Library.Sublist" "HOL-Library.Log_Nat" "HOL-Library.Word"
begin

section \<open>Data model\<close>

text \<open>
  The dashboard works on pandas data frames.  A frame is modelled by its row index, its
  column labels and one series per column label (column-major, in label order).

  \<^item> The row index is either the timestamp index that the data source delivers (with its
    name, its timezone label and its timestamps) or the positional index that
    \<^verbatim>\<open>reset_index\<close> leaves behind.
  \<^item> The column labels of a raw frame are either flat strings or tuples of strings (a
    multi-level header).  Frames that have passed \<^verbatim>\<open>process_data\<close> have flat labels; the
    functions after it are modelled on flat labels only.
  \<^item> A string is a list of characters, and a character stands for the code point of the
    same number, so the strings of the model are the Python strings over the code points
    0 to 255.
  \<^item> A numeric column is a \<^verbatim>\<open>float64\<close> column or an \<^verbatim>\<open>int64\<close> column.  A \<^verbatim>\<open>float64\<close> cell is
    a binary64 number: a finite one is given by its real value (the two zeros are one
    value, as they are for Python's \<^verbatim>\<open>==\<close>), the others are the two infinities and NaN.  An
    \<^verbatim>\<open>int64\<close> cell is a 64-bit word, read as a signed integer.
  \<^item> A timestamp is an integer count of time units; for a timezone-aware series it is the
    instant, for a naive one the wall-clock reading.
\<close>

datatype error =
    AttributeError | ValueError | KeyError | TypeError | IndexError | ZeroDivisionError
  | OverflowError | DownloadError string

definition and_then :: "error + 'a \<Rightarrow> ('a \<Rightarrow> error + 'b) \<Rightarrow> error + 'b" where
  "and_then r f = (case r of Inl e \<Rightarrow> Inl e | Inr x \<Rightarrow> f x)"

datatype binary64 = Finite real | PosInf | NegInf | NaN

datatype row_index =
    RangeIndex nat
  | DatetimeIndex "string option" "string option" "int list"

datatype col_index = Index "string list" | MultiIndex "string list list"

datatype series =
    Floats "binary64 list"
  | Ints "64 word list"
  | Datetimes "string option" "int list"

record 'c frame =
  index :: row_index
  columns :: 'c
  data :: "series list"

type_synonym raw_table = "col_index frame"
type_synonym table = "string list frame"

fun len_index :: "row_index \<Rightarrow> nat" where
  "len_index (RangeIndex n) = n"
| "len_index (DatetimeIndex nm tz ts) = length ts"

definition len :: "'c frame \<Rightarrow> nat" where
  "len d = len_index (index d)"

fun ncols :: "col_index \<Rightarrow> nat" where
  "ncols (Index ls) = length ls"
| "ncols (MultiIndex ts) = length ts"

text \<open>\<^verbatim>\<open>DataFrame.empty\<close>: some axis has length 0.\<close>

definition empty :: "raw_table \<Rightarrow> bool" where
  "empty d \<longleftrightarrow> len d = 0 \<or> ncols (columns d) = 0"

section \<open>Binary64 arithmetic\<close>

text \<open>
  Python's float operations round the exact result to the nearest binary64 number, ties
  to the even significand.  \<open>ilog2 x\<close> is the binary exponent of a positive \<open>x\<close>, the integer
  \<open>e\<close> with \<open>2\<^sup>e \<le> x < 2\<^sup>e\<^sup>+\<^sup>1\<close>.  Below \<open>2\<^sup>-\<^sup>1\<^sup>0\<^sup>2\<^sup>2\<close> the spacing of the numbers stays that
  of the smallest normal exponent (subnormal numbers); a result that rounds to \<open>2\<^sup>1\<^sup>0\<^sup>2\<^sup>4\<close>
  or beyond is an infinity.
\<close>

definition ilog2 :: "real \<Rightarrow> int" where
  "ilog2 x = (if 1 \<le> x then bitlen \<lfloor>x\<rfloor> - 1 else - bitlen (\<lceil>1 / x\<rceil> - 1))"

definition round_half_even :: "real \<Rightarrow> int" where
  "round_half_even t =
     (let f = \<lfloor>t\<rfloor>; d = t - of_int f
      in if d < 1 / 2 then f else if 1 / 2 < d then f + 1 else if even f then f else f + 1)"

definition rnd :: "real \<Rightarrow> binary64" where
  "rnd x =
     (if x = 0 then Finite 0
      else (let e = max (ilog2 \<bar>x\<bar>) (- 1022);
                u = 2 powi (e - 52);
                y = of_int (round_half_even (x / u)) * u
            in if 2 ^ 1024 \<le> \<bar>y\<bar> then (if 0 < x then PosInf else NegInf) else Finite y))"

text \<open>\<^verbatim>\<open>a - b\<close> on floats.\<close>

fun fsub :: "binary64 \<Rightarrow> binary64 \<Rightarrow> binary64" where
  "fsub NaN b = NaN"
| "fsub a NaN = NaN"
| "fsub PosInf PosInf = NaN"
| "fsub NegInf NegInf = NaN"
| "fsub PosInf b = PosInf"
| "fsub NegInf b = NegInf"
| "fsub (Finite x) PosInf = NegInf"
| "fsub (Finite x) NegInf = PosInf"
| "fsub (Finite x) (Finite y) = rnd (x - y)"

text \<open>The infinity of a sign, for a product or quotient that is infinite.\<close>

definition inf_of_sign :: "bool \<Rightarrow> binary64" where
  "inf_of_sign positive = (if positive then PosInf else NegInf)"

text \<open>\<^verbatim>\<open>a * b\<close> on floats.\<close>

fun fmul :: "binary64 \<Rightarrow> binary64 \<Rightarrow> binary64" where
  "fmul NaN b = NaN"
| "fmul a NaN = NaN"
| "fmul (Finite x) (Finite y) = rnd (x * y)"
| "fmul (Finite x) b = (if x = 0 then NaN else inf_of_sign ((0 < x) = (b = PosInf)))"
| "fmul a (Finite y) = (if y = 0 then NaN else inf_of_sign ((0 < y) = (a = PosInf)))"
| "fmul a b = inf_of_sign (a = b)"

text \<open>\<^verbatim>\<open>a / b\<close> on floats for a divisor that is not zero.\<close>

fun fquot :: "binary64 \<Rightarrow> binary64 \<Rightarrow> binary64" where
  "fquot NaN b = NaN"
| "fquot a NaN = NaN"
| "fquot (Finite x) (Finite y) = rnd (x / y)"
| "fquot (Finite x) b = Finite 0"
| "fquot a (Finite y) = inf_of_sign ((0 < y) = (a = PosInf))"
| "fquot a b = NaN"

text \<open>Dividing a Python float by zero raises, also when the dividend is NaN or infinite.\<close>

definition fdiv :: "binary64 \<Rightarrow> binary64 \<Rightarrow> error + binary64" where
  "fdiv a b = (if b = Finite 0 then Inl ZeroDivisionError else Inr (fquot a b))"

text \<open>\<^verbatim>\<open>float(n)\<close> for an \<^verbatim>\<open>int64\<close> cell.\<close>

definition float_of_int64 :: "64 word \<Rightarrow> binary64" where
  "float_of_int64 w = rnd (real_of_int (sint w))"

text \<open>
  \<^verbatim>\<open>int(x)\<close> on a float truncates towards zero; an infinity raises \<^verbatim>\<open>OverflowError\<close>, NaN
  raises \<^verbatim>\<open>ValueError\<close>.
\<close>

definition trunc :: "real \<Rightarrow> int" where
  "trunc x = (if 0 \<le> x then \<lfloor>x\<rfloor> else \<lceil>x\<rceil>)"

fun int_of_float :: "binary64 \<Rightarrow> error + int" where
  "int_of_float (Finite x) = Inr (trunc x)"
| "int_of_float NaN = Inl ValueError"
| "int_of_float a = Inl OverflowError"

text \<open>The order of the floats that are not NaN, and the larger and smaller of two.\<close>

fun fle :: "binary64 \<Rightarrow> binary64 \<Rightarrow> bool" where
  "fle NegInf b = True"
| "fle a PosInf = True"
| "fle (Finite x) (Finite y) = (x \<le> y)"
| "fle a b = False"

definition fmax2 :: "binary64 \<Rightarrow> binary64 \<Rightarrow> binary64" where
  "fmax2 a b = (if fle a b then b else a)"

definition fmin2 :: "binary64 \<Rightarrow> binary64 \<Rightarrow> binary64" where
  "fmin2 a b = (if fle a b then a else b)"

section \<open>Strings\<close>

text \<open>\<^verbatim>\<open>sub in s\<close> on strings is the contiguous-substring test, \<^const>\<open>sublist\<close>.\<close>

fun join :: "string \<Rightarrow> string list \<Rightarrow> string" where
  "join sep [] = []"
| "join sep [x] = x"
| "join sep (x # y # ys) = x @ sep @ join sep (y # ys)"

text \<open>
  The code points below 256 that \<^verbatim>\<open>str.strip()\<close> removes: 9 to 13, 28 to 32, 133 (next line)
  and 160 (no-break space).
\<close>

definition is_space :: "char \<Rightarrow> bool" where
  "is_space c \<longleftrightarrow>
     (let n = (of_char c :: nat)
      in (9 \<le> n \<and> n \<le> 13) \<or> (28 \<le> n \<and> n \<le> 32) \<or> n = 133 \<or> n = 160)"

definition strip :: "string \<Rightarrow> string" where
  "strip s = rev (dropWhile is_space (rev (dropWhile is_space s)))"

section \<open>The Normalizer\<close>

text \<open>\<^verbatim>\<open>[' '.join(col).strip() for col in data.columns.values]\<close>\<close>

definition flatten :: "string list list \<Rightarrow> string list" where
  "flatten ts = map (\<lambda>col. strip (join '' '' col)) ts"

text \<open>\<^verbatim>\<open>DataFrame.rename(columns=m)\<close> with a dictionary: every label that is a key is replaced.\<close>

definition rename :: "(string \<rightharpoonup> string) \<Rightarrow> table \<Rightarrow> table" where
  "rename m d = d\<lparr>columns := map (\<lambda>c. case m c of Some v \<Rightarrow> v | None \<Rightarrow> c) (columns d)\<rparr>"

text \<open>
  The timestamps of an index with their zone label.  \<^verbatim>\<open>tz_localize('UTC')\<close> labels naive
  wall-clock readings as UTC, so the readings are the instants; on an index that has a zone
  it raises.  \<^verbatim>\<open>tz_convert\<close> changes the zone label of an aware index and keeps the instants;
  on a naive index it raises.
\<close>

definition tz_localize_UTC :: "string option \<times> int list \<Rightarrow> error + string option \<times> int list" where
  "tz_localize_UTC x = (case fst x of None \<Rightarrow> Inr (Some ''UTC'', snd x) | Some z \<Rightarrow> Inl TypeError)"

definition tz_convert :: "string \<Rightarrow> string option \<times> int list \<Rightarrow>
    error + string option \<times> int list" where
  "tz_convert zone x = (case fst x of None \<Rightarrow> Inl TypeError | Some z \<Rightarrow> Inr (Some zone, snd x))"

text \<open>
  \<^verbatim>\<open>reset_index\<close> on a frame with flat labels and a timestamp index: the index becomes the
  first column, named after the index, or \<^verbatim>\<open>index\<close> (\<^verbatim>\<open>level_0\<close> when \<^verbatim>\<open>index\<close> is taken) for
  an unnamed one; inserting a label that exists already raises.
\<close>

definition index_label :: "string option \<Rightarrow> string list \<Rightarrow> string" where
  "index_label nm cols =
     (case nm of Some n \<Rightarrow> n
      | None \<Rightarrow> if ''index'' \<in> set cols then ''level_0'' else ''index'')"

definition reset_index :: "string option \<Rightarrow> string option \<Rightarrow> int list \<Rightarrow> string list \<Rightarrow>
    series list \<Rightarrow> error + table" where
  "reset_index nm tz ts cols ds =
     (if index_label nm cols \<in> set cols then Inl ValueError
      else Inr \<lparr>index = RangeIndex (length ts), columns = index_label nm cols # cols,
                data = Datetimes tz ts # ds\<rparr>)"

definition process_data :: "raw_table \<Rightarrow> error + table" where
  "process_data d =
     (let cols = (case columns d of MultiIndex tups \<Rightarrow> flatten tups | Index ls \<Rightarrow> ls) in
      case index d of
        RangeIndex n \<Rightarrow> Inl AttributeError
      | DatetimeIndex nm tz ts \<Rightarrow>
          and_then (if tz = None then tz_localize_UTC (tz, ts) else Inr (tz, ts)) (\<lambda>aware.
          and_then (tz_convert ''US/Eastern'' aware) (\<lambda>eastern.
          and_then (reset_index nm (fst eastern) (snd eastern) cols (data d)) (\<lambda>d1.
            if ''Date'' \<in> set (columns d1)
            then Inr (rename [''Date'' \<mapsto> ''Datetime''] d1)
            else if ''Datetime'' \<notin> set (columns d1)
            then (case columns d1 of
                    [] \<Rightarrow> Inl IndexError
                  | c0 # _ \<Rightarrow> Inr (rename [c0 \<mapsto> ''Datetime''] d1))
            else Inr d1))))"

text \<open>The loop of \<^verbatim>\<open>normalize_column_names\<close> that fills the dictionary \<^verbatim>\<open>col_map\<close>.\<close>

fun col_map_loop :: "string list \<Rightarrow> (string \<rightharpoonup> string) \<Rightarrow> (string \<rightharpoonup> string)" where
  "col_map_loop [] col_map = col_map"
| "col_map_loop (col # cols) col_map =
     col_map_loop cols
       (if sublist ''Open'' col then col_map(col \<mapsto> ''Open'')
        else if sublist ''High'' col then col_map(col \<mapsto> ''High'')
        else if sublist ''Low'' col then col_map(col \<mapsto> ''Low'')
        else if sublist ''Close'' col then col_map(col \<mapsto> ''Close'')
        else if sublist ''Volume'' col then col_map(col \<mapsto> ''Volume'')
        else col_map)"

definition normalize_column_names :: "table \<Rightarrow> table" where
  "normalize_column_names d = rename (col_map_loop (columns d) Map.empty) d"

text \<open>The Normalizer of the specification: \<^verbatim>\<open>process_data\<close> followed by \<^verbatim>\<open>normalize_column_names\<close>.\<close>

definition normalizer :: "raw_table \<Rightarrow> error + table" where
  "normalizer d = (case process_data d of Inl e \<Rightarrow> Inl e | Inr d1 \<Rightarrow> Inr (normalize_column_names d1))"

section \<open>Reading columns\<close>

text \<open>
  \<^verbatim>\<open>data[key]\<close> on flat labels: a missing label raises \<^verbatim>\<open>KeyError\<close>, a label that occurs once
  gives its series, a label that occurs several times gives the frame of all its columns.
\<close>

datatype selection = Series series | DataFrame "series list"

definition getitem :: "table \<Rightarrow> string \<Rightarrow> error + selection" where
  "getitem d key =
     (case map snd (filter (\<lambda>cs. fst cs = key) (zip (columns d) (data d))) of
        [] \<Rightarrow> Inl KeyError
      | [s] \<Rightarrow> Inr (Series s)
      | ss \<Rightarrow> Inr (DataFrame ss))"

text \<open>Indexing a sequence with a Python integer: negative positions count from the end.\<close>

definition py_index :: "'a list \<Rightarrow> int \<Rightarrow> error + 'a" where
  "py_index xs i =
     (if 0 \<le> i \<and> i < int (length xs) then Inr (xs ! nat i)
      else if i < 0 \<and> - int (length xs) \<le> i then Inr (xs ! nat (int (length xs) + i))
      else Inl IndexError)"

fun series_len :: "series \<Rightarrow> nat" where
  "series_len (Floats xs) = length xs"
| "series_len (Ints ws) = length ws"
| "series_len (Datetimes tz ts) = length ts"

text \<open>
  \<^verbatim>\<open>float(sel.iloc[i])\<close>: a float cell is itself, an integer cell converts with rounding; a
  timestamp does not convert; a row of a frame selection (two or more cells) does not.
  A position out of range raises first.
\<close>

definition float_iloc :: "selection \<Rightarrow> int \<Rightarrow> error + binary64" where
  "float_iloc sel i =
     (case sel of
        Series (Floats xs) \<Rightarrow> py_index xs i
      | Series (Ints ws) \<Rightarrow> and_then (py_index ws i) (\<lambda>w. Inr (float_of_int64 w))
      | Series (Datetimes tz ts) \<Rightarrow> and_then (py_index ts i) (\<lambda>t. Inl TypeError)
      | DataFrame ss \<Rightarrow>
          and_then (py_index [0..<(case ss of [] \<Rightarrow> 0 | s # _ \<Rightarrow> series_len s)] i)
            (\<lambda>r. Inl TypeError))"

text \<open>
  The reductions of pandas skip NaN.  \<^verbatim>\<open>max\<close> and \<^verbatim>\<open>min\<close> of a series with no other cell
  are NaN.
\<close>

definition nanmax :: "binary64 list \<Rightarrow> binary64" where
  "nanmax xs = (case filter (\<lambda>x. x \<noteq> NaN) xs of [] \<Rightarrow> NaN | y # ys \<Rightarrow> fold fmax2 ys y)"

definition nanmin :: "binary64 list \<Rightarrow> binary64" where
  "nanmin xs = (case filter (\<lambda>x. x \<noteq> NaN) xs of [] \<Rightarrow> NaN | y # ys \<Rightarrow> fold fmin2 ys y)"

text \<open>
  \<^verbatim>\<open>float(sel.max())\<close> and \<^verbatim>\<open>float(sel.min())\<close>.  The extreme cell of an integer column is
  exact and is rounded by the conversion; that of a timestamp column is a timestamp, and
  that of a frame selection is a series: neither converts.
\<close>

definition float_max :: "selection \<Rightarrow> error + binary64" where
  "float_max sel =
     (case sel of
        Series (Floats xs) \<Rightarrow> Inr (nanmax xs)
      | Series (Ints ws) \<Rightarrow>
          Inr (if ws = [] then NaN else rnd (real_of_int (Max (sint ` set ws))))
      | _ \<Rightarrow> Inl TypeError)"

definition float_min :: "selection \<Rightarrow> error + binary64" where
  "float_min sel =
     (case sel of
        Series (Floats xs) \<Rightarrow> Inr (nanmin xs)
      | Series (Ints ws) \<Rightarrow>
          Inr (if ws = [] then NaN else rnd (real_of_int (Min (sint ` set ws))))
      | _ \<Rightarrow> Inl TypeError)"

text \<open>
  \<^verbatim>\<open>int(sel.sum())\<close>.  An \<^verbatim>\<open>int64\<close> column is summed in 64-bit arithmetic, which wraps around.
  A \<^verbatim>\<open>float64\<close> column is summed by numpy after NaN cells are replaced by zero; the order
  of numpy's additions is not part of the model, so that sum is the parameter \<open>np_sum\<close>.
\<close>

definition int_sum :: "(binary64 list \<Rightarrow> binary64) \<Rightarrow> selection \<Rightarrow> error + int" where
  "int_sum np_sum sel =
     (case sel of
        Series (Floats xs) \<Rightarrow>
          int_of_float (np_sum (map (\<lambda>x. if x = NaN then Finite 0 else x) xs))
      | Series (Ints ws) \<Rightarrow> Inr (sint (sum_list ws))
      | _ \<Rightarrow> Inl TypeError)"

section \<open>Metrics Calculator\<close>

type_synonym metrics = "binary64 \<times> binary64 \<times> binary64 \<times> binary64 \<times> binary64 \<times> int"

definition calculate_metrics :: "(binary64 list \<Rightarrow> binary64) \<Rightarrow> table \<Rightarrow> error + metrics" where
  "calculate_metrics np_sum d =
     and_then (and_then (getitem d ''Close'') (\<lambda>c. float_iloc c (- 1))) (\<lambda>last_close.
     and_then (and_then (getitem d ''Close'') (\<lambda>c. float_iloc c 0)) (\<lambda>prev_close.
     (let change = fsub last_close prev_close in
     and_then (fdiv change prev_close) (\<lambda>q.
     (let pct_change = fmul q (Finite 100) in
     and_then (and_then (getitem d ''High'') float_max) (\<lambda>high.
     and_then (and_then (getitem d ''Low'') float_min) (\<lambda>low.
     and_then (and_then (getitem d ''Volume'') (int_sum np_sum)) (\<lambda>volume.
     Inr (last_close, change, pct_change, high, low, volume)))))))))"

section \<open>Indicator Engine\<close>

text \<open>The real values of the finite cells of a float column.\<close>

definition finite_values :: "binary64 list \<Rightarrow> real list" where
  "finite_values xs = concat (map (\<lambda>x. case x of Finite r \<Rightarrow> [r] | _ \<Rightarrow> []) xs)"

text \<open>
  Modelled from the spec: \<^verbatim>\<open>ta.trend.sma_indicator\<close>, a function of the indicator library
  that the module imports and that is not part of its source.  The specification gives
  the simple moving average by its window: entry \<open>i\<close> is the mean of the \<open>window\<close> closes
  ending at \<open>i\<close>, and is undefined while fewer than \<open>window\<close> closes are available.  A window
  that holds a close that is not a finite number has no mean.  The mean is the
  arithmetic mean of the specification, not rounded.
\<close>

definition mean :: "binary64 list \<Rightarrow> binary64" where
  "mean w = (if w = [] \<or> length (finite_values w) \<noteq> length w then NaN
             else Finite (sum_list (finite_values w) / real (length w)))"

definition sma_indicator :: "binary64 list \<Rightarrow> nat \<Rightarrow> binary64 list" where
  "sma_indicator close window =
     map (\<lambda>i. if i + 1 < window then NaN
              else mean (take window (drop (i + 1 - window) close)))
         [0..<length close]"

text \<open>\<^verbatim>\<open>data[key] = s\<close>: every column under the label is replaced, a new label is appended.\<close>

definition setitem :: "table \<Rightarrow> string \<Rightarrow> series \<Rightarrow> table" where
  "setitem d key s =
     (if key \<in> set (columns d)
      then d\<lparr>data := map (\<lambda>cs. if fst cs = key then s else snd cs) (zip (columns d) (data d))\<rparr>
      else d\<lparr>columns := columns d @ [key], data := data d @ [s]\<rparr>)"

text \<open>
  The exponential moving average \<^verbatim>\<open>ta.trend.ema_indicator\<close> is a parameter \<open>ema\<close> of the model.
  A close selection that is one numeric column is one-dimensional and is handed to the
  indicators as it is, an integer column converted to floats.  Any other selection
  (timestamps, or a frame of several columns that \<^verbatim>\<open>squeeze\<close> cannot turn into a column of
  the table) makes the indicator call or the column assignment raise; the class of that
  exception is outside the model and stands as \<^const>\<open>ValueError\<close>.
\<close>

definition add_technical_indicators ::
    "(binary64 list \<Rightarrow> nat \<Rightarrow> binary64 list) \<Rightarrow> table \<Rightarrow> error + table" where
  "add_technical_indicators ema d =
     and_then (getitem d ''Close'') (\<lambda>close_series.
       and_then
         (case close_series of
            Series (Floats xs) \<Rightarrow> Inr xs
          | Series (Ints ws) \<Rightarrow> Inr (map float_of_int64 ws)
          | _ \<Rightarrow> Inl ValueError)
         (\<lambda>close.
           (let d1 = setitem d ''SMA_20'' (Floats (sma_indicator close 20));
                d2 = setitem d1 ''EMA_20'' (Floats (ema close 20))
            in Inr d2)))"

section \<open>Fetch\<close>

text \<open>
  The request that reaches the data source \<^verbatim>\<open>yf.download\<close>: either an explicit window
  (ticker, start, end, interval) or a period token (ticker, period, interval).  The data
  source itself and the clock are parameters: \<open>download\<close> answers a request with a raw table
  or raises, \<open>now\<close> is the reading of \<^verbatim>\<open>datetime.now()\<close> in microseconds.
\<close>

datatype yf_request =
    Start_end string int int string
  | Period string string string

definition timedelta_days :: "int \<Rightarrow> int" where
  "timedelta_days n = n * 86400000000"

definition fetch_request :: "int \<Rightarrow> string \<Rightarrow> string \<Rightarrow> string \<Rightarrow> yf_request" where
  "fetch_request now ticker period interval =
     (let end_date = now in
      if period = ''1wk''
      then (let start_date = end_date - timedelta_days 7
            in Start_end ticker start_date end_date interval)
      else Period ticker period interval)"

definition fetch_stock_data :: "(yf_request \<Rightarrow> error + raw_table) \<Rightarrow> int \<Rightarrow>
    string \<Rightarrow> string \<Rightarrow> string \<Rightarrow> error + raw_table" where
  "fetch_stock_data download now ticker period interval =
     download (fetch_request now ticker period interval)"

definition interval_mapping :: "string \<rightharpoonup> string" where
  "interval_mapping =
     [''1d'' \<mapsto> ''5m'', ''1wk'' \<mapsto> ''30m'', ''1mo'' \<mapsto> ''1d'', ''1y'' \<mapsto> ''1wk'', ''max'' \<mapsto> ''1wk'']"

section \<open>Orchestrator\<close>

text \<open>
  A run of a handler is observed through its trace: the calls of the module's own
  functions (with their string arguments) and the requests to the display layer, in
  program order.  A metric carries the numbers that its formatted strings render.  Titles,
  headers and layout calls do not depend on the data and are left out.
\<close>

datatype figure = Candlestick "string list" | Line "string list"

datatype event =
    Calls string "string list"
  | St_warning string
  | St_error error
  | St_metric string "binary64 list"
  | St_plotly_chart figure
  | St_dataframe "string list"
  | Sidebar_metric string binary64 binary64 binary64
  | Sidebar_warning string error

record request =
  ticker :: string
  time_period :: string
  chart_type :: string
  indicators :: "string list"
  update :: bool

text \<open>All of the labels are columns: what subscripting with them needs.\<close>

definition has_columns :: "table \<Rightarrow> string list \<Rightarrow> bool" where
  "has_columns d keys \<longleftrightarrow> (\<forall>k \<in> set keys. k \<in> set (columns d))"

text \<open>Each of the labels is the label of one column only.\<close>

definition single_columns :: "table \<Rightarrow> string list \<Rightarrow> bool" where
  "single_columns d keys \<longleftrightarrow> (\<forall>k \<in> set keys. count_list (columns d) k = 1)"

text \<open>
  The columns handed to a plotly trace, \<^verbatim>\<open>data[k]\<close> for each label: a missing label raises
  \<^verbatim>\<open>KeyError\<close> while the arguments are evaluated; a label of several columns gives a frame,
  which the trace refuses.
\<close>

definition trace_columns :: "table \<Rightarrow> string list \<Rightarrow> error option" where
  "trace_columns d keys =
     (if \<not> has_columns d keys then Some KeyError
      else if \<not> single_columns d keys then Some ValueError
      else None)"

text \<open>
  The chart-type branch: the warnings it shows and the figure it builds, or the error
  raised.  \<^verbatim>\<open>px.line\<close> takes the frame and the two labels, and refuses a label that is not the
  label of one column.
\<close>

definition chart_branch :: "string \<Rightarrow> table \<Rightarrow> event list \<times> (error + figure)" where
  "chart_branch ctype d =
     (if ctype = ''Candlestick'' \<and> len d \<ge> 5
      then ([], case trace_columns d [''Datetime'', ''Open'', ''High'', ''Low'', ''Close''] of
                  Some e \<Rightarrow> Inl e | None \<Rightarrow> Inr (Candlestick []))
      else ((if ctype = ''Candlestick''
             then [St_warning ''Not enough candles. Showing line chart instead.''] else []),
            if single_columns d [''Datetime'', ''Close''] then Inr (Line []) else Inl ValueError))"

fun add_trace :: "figure \<Rightarrow> string \<Rightarrow> figure" where
  "add_trace (Candlestick ns) n = Candlestick (ns @ [n])"
| "add_trace (Line ns) n = Line (ns @ [n])"

fun indicator_loop :: "table \<Rightarrow> string list \<Rightarrow> figure \<Rightarrow> error + figure" where
  "indicator_loop d [] fig = Inr fig"
| "indicator_loop d (indicator # rest) fig =
     (if indicator = ''SMA 20''
      then (case trace_columns d [''Datetime'', ''SMA_20''] of
              Some e \<Rightarrow> Inl e
            | None \<Rightarrow> indicator_loop d rest (add_trace fig ''SMA 20''))
      else if indicator = ''EMA 20''
      then (case trace_columns d [''Datetime'', ''EMA_20''] of
              Some e \<Rightarrow> Inl e
            | None \<Rightarrow> indicator_loop d rest (add_trace fig ''EMA 20''))
      else indicator_loop d rest fig)"

text \<open>What follows the four metrics: chart, overlays and the two tables.\<close>

definition render :: "request \<Rightarrow> table \<Rightarrow> event list \<times> error option" where
  "render rq d =
     (case chart_branch (chart_type rq) d of
        (ws, Inl e) \<Rightarrow> (ws, Some e)
      | (ws, Inr fig0) \<Rightarrow>
          (case indicator_loop d (indicators rq) fig0 of
             Inl e \<Rightarrow> (ws, Some e)
           | Inr fig \<Rightarrow>
               if \<not> has_columns d [''Datetime'', ''Open'', ''High'', ''Low'', ''Close'', ''Volume'']
               then (ws @ [St_plotly_chart fig], Some KeyError)
               else if \<not> has_columns d [''Datetime'', ''SMA_20'', ''EMA_20'']
               then (ws @ [St_plotly_chart fig,
                       St_dataframe [''Datetime'', ''Open'', ''High'', ''Low'', ''Close'', ''Volume'']],
                     Some KeyError)
               else (ws @ [St_plotly_chart fig,
                       St_dataframe [''Datetime'', ''Open'', ''High'', ''Low'', ''Close'', ''Volume''],
                       St_dataframe [''Datetime'', ''SMA_20'', ''EMA_20'']], None)))"

text \<open>
  The main chart handler.  Every exception raised inside the \<^verbatim>\<open>try\<close> block ends the run with
  \<^verbatim>\<open>st.error\<close>; what was shown before stays shown.
\<close>

definition caught :: "event list \<times> error option \<Rightarrow> event list" where
  "caught r = (case snd r of None \<Rightarrow> fst r | Some e \<Rightarrow> fst r @ [St_error e])"

definition main_chart :: "(yf_request \<Rightarrow> error + raw_table) \<Rightarrow>
    (binary64 list \<Rightarrow> nat \<Rightarrow> binary64 list) \<Rightarrow> (binary64 list \<Rightarrow> binary64) \<Rightarrow>
    int \<Rightarrow> request \<Rightarrow> event list" where
  "main_chart download ema np_sum now rq =
     (if \<not> update rq then []
      else case interval_mapping (time_period rq) of
        None \<Rightarrow> [St_error KeyError]
      | Some interval \<Rightarrow>
          Calls ''fetch_stock_data'' [ticker rq, time_period rq, interval] #
          (case fetch_stock_data download now (ticker rq) (time_period rq) interval of
             Inl e \<Rightarrow> [St_error e]
           | Inr raw \<Rightarrow>
               if empty raw \<or> len raw < 2
               then [St_warning ''Not enough data to display chart.'']
               else Calls ''process_data'' [] #
                 (case process_data raw of
                    Inl e \<Rightarrow> [St_error e]
                  | Inr d1 \<Rightarrow>
                      Calls ''normalize_column_names'' [] # Calls ''calculate_metrics'' [] #
                      (let d2 = normalize_column_names d1 in
                       case calculate_metrics np_sum d2 of
                         Inl e \<Rightarrow> [St_error e]
                       | Inr (last_close, change, pct_change, high, low, volume) \<Rightarrow>
                           Calls ''add_technical_indicators'' [] #
                           (case add_technical_indicators ema d2 of
                              Inl e \<Rightarrow> [St_error e]
                            | Inr d3 \<Rightarrow>
                                [St_metric (ticker rq @ '' Last Price'')
                                   [last_close, change, pct_change],
                                 St_metric ''High'' [high],
                                 St_metric ''Low'' [low],
                                 St_metric ''Volume'' [Finite (real_of_int volume)]]
                                @ caught (render rq d3))))))"

text \<open>
  One pass of the watchlist loop for one symbol: the events shown and the exception that
  leaves the loop body, if any.  Only the block that reads the prices and shows the metric
  stands inside \<^verbatim>\<open>try\<close>.
\<close>

definition watch_prices :: "table \<Rightarrow> error + (binary64 \<times> binary64 \<times> binary64)" where
  "watch_prices d =
     and_then (and_then (getitem d ''Close'') (\<lambda>c. float_iloc c (- 1))) (\<lambda>last_price.
     and_then (and_then (getitem d ''Open'') (\<lambda>c. float_iloc c 0)) (\<lambda>open_price.
     (let change = fsub last_price open_price in
     and_then (fdiv change open_price) (\<lambda>q.
     Inr (last_price, change, fmul q (Finite 100))))))"

definition watch_symbol :: "(yf_request \<Rightarrow> error + raw_table) \<Rightarrow> int \<Rightarrow> string \<Rightarrow>
    event list \<times> error option" where
  "watch_symbol download now symbol =
     (case fetch_stock_data download now symbol ''1d'' ''1m'' of
        Inl e \<Rightarrow> ([Calls ''fetch_stock_data'' [symbol, ''1d'', ''1m'']], Some e)
      | Inr real_time_data \<Rightarrow>
          if \<not> empty real_time_data
          then (let flat = (case columns real_time_data of
                              MultiIndex tups \<Rightarrow> real_time_data\<lparr>columns := Index (flatten tups)\<rparr>
                            | Index ls \<Rightarrow> real_time_data)
                in case process_data flat of
                     Inl e \<Rightarrow> ([Calls ''fetch_stock_data'' [symbol, ''1d'', ''1m''],
                                Calls ''process_data'' []], Some e)
                   | Inr d1 \<Rightarrow>
                       ([Calls ''fetch_stock_data'' [symbol, ''1d'', ''1m''],
                         Calls ''process_data'' [], Calls ''normalize_column_names'' [],
                         (case watch_prices (normalize_column_names d1) of
                            Inl e \<Rightarrow> Sidebar_warning symbol e
                          | Inr (last_price, change, pct_change) \<Rightarrow>
                              Sidebar_metric symbol last_price change pct_change)],
                        None))
          else ([Calls ''fetch_stock_data'' [symbol, ''1d'', ''1m'']], None))"

fun watchlist_loop :: "(yf_request \<Rightarrow> error + raw_table) \<Rightarrow> int \<Rightarrow> string list \<Rightarrow>
    event list \<times> error option" where
  "watchlist_loop download now [] = ([], None)"
| "watchlist_loop download now (symbol # rest) =
     (case watch_symbol download now symbol of
        (es, Some e) \<Rightarrow> (es, Some e)
      | (es, None) \<Rightarrow>
          (case watchlist_loop download now rest of (es', r) \<Rightarrow> (es @ es', r)))"

definition stock_symbols :: "string list" where
  "stock_symbols = [''AAPL'', ''GOOGL'', ''AMZN'', ''MSFT'']"

text \<open>One run of the script: the main chart handler, then the watchlist loop.\<close>

definition dashboard :: "(yf_request \<Rightarrow> error + raw_table) \<Rightarrow>
    (binary64 list \<Rightarrow> nat \<Rightarrow> binary64 list) \<Rightarrow> (binary64 list \<Rightarrow> binary64) \<Rightarrow>
    int \<Rightarrow> request \<Rightarrow> event list \<times> error option" where
  "dashboard download ema np_sum now rq =
     (case watchlist_loop download now stock_symbols of
        (es, r) \<Rightarrow> (main_chart download ema np_sum now rq @ es, r))"

section \<open>Canonical tables\<close>

text \<open>
  The canonical table of the specification: the labels are distinct, \<^verbatim>\<open>Datetime\<close> and the five
  price and volume names are among them, every column has one cell per row, the
  \<^verbatim>\<open>Datetime\<close> column holds timestamps in the display zone, the price and volume columns
  hold finite numbers (the volume column as floats or as integers), and the only other
  columns are the two indicator columns.
\<close>

definition ohlcv :: "string list" where
  "ohlcv = [''Open'', ''High'', ''Low'', ''Close'', ''Volume'']"

fun canonical_series :: "nat \<Rightarrow> string \<times> series \<Rightarrow> bool" where
  "canonical_series n (c, Datetimes tz ts) \<longleftrightarrow>
     c = ''Datetime'' \<and> tz = Some ''US/Eastern'' \<and> length ts = n"
| "canonical_series n (c, Floats xs) \<longleftrightarrow>
     length xs = n \<and> (c \<in> set ohlcv \<and> length (finite_values xs) = length xs
                      \<or> c = ''SMA_20'' \<or> c = ''EMA_20'')"
| "canonical_series n (c, Ints ws) \<longleftrightarrow> length ws = n \<and> c = ''Volume''"

definition canonical :: "table \<Rightarrow> bool" where
  "canonical d \<longleftrightarrow>
     distinct (columns d) \<and> length (data d) = length (columns d)
     \<and> list_all (\<lambda>k. k \<in> set (columns d)) (''Datetime'' # ohlcv)
     \<and> list_all (canonical_series (len d)) (zip (columns d) (data d))"

text \<open>The series stored under a label that occurs once.\<close>

definition column :: "table \<Rightarrow> string \<Rightarrow> series option" where
  "column d key = map_of (zip (columns d) (data d)) key"

text \<open>The numbers of the column under a label, \<open>canonical.Close[i]\<close> in the specification.\<close>

definition col :: "table \<Rightarrow> string \<Rightarrow> real list" where
  "col d key = (case column d key of
                  Some (Floats xs) \<Rightarrow> finite_values xs
                | Some (Ints ws) \<Rightarrow> map (\<lambda>w. real_of_int (sint w)) ws
                | _ \<Rightarrow> [])"

text \<open>The frames on which reading and writing a column by its label is unambiguous.\<close>

definition well_formed :: "table \<Rightarrow> bool" where
  "well_formed d \<longleftrightarrow> distinct (columns d) \<and> length (data d) = length (columns d)"

text \<open>
  What \<^verbatim>\<open>normalize_column_names\<close> does to one label: the first of the five names that occurs
  in it, in the order of the \<^verbatim>\<open>if\<close> chain, or the label itself.
\<close>

definition canonical_name :: "string \<Rightarrow> string" where
  "canonical_name label =
     (if sublist ''Open'' label then ''Open''
      else if sublist ''High'' label then ''High''
      else if sublist ''Low'' label then ''Low''
      else if sublist ''Close'' label then ''Close''
      else if sublist ''Volume'' label then ''Volume''
      else label)"

text \<open>A table handed to \<^verbatim>\<open>process_data\<close> again: the same frame, its labels a flat index.\<close>

definition as_raw :: "table \<Rightarrow> raw_table" where
  "as_raw t = \<lparr>index = index t, columns = Index (columns t), data = data t\<rparr>"

section \<open>Concrete inputs\<close>

definition one_row :: raw_table where
  "one_row = \<lparr>index = DatetimeIndex (Some ''Datetime'') None [0],
              columns = MultiIndex [[''Close'', ''ADBE'']], data = [Floats [Finite 1]]\<rparr>"

definition one_row_source :: "yf_request \<Rightarrow> error + raw_table" where
  "one_row_source r = Inr one_row"

definition no_ema :: "binary64 list \<Rightarrow> nat \<Rightarrow> binary64 list" where
  "no_ema close window = map (\<lambda>x. NaN) close"

text \<open>Summation from left to right, as numpy adds up fewer than eight floats.\<close>

definition left_sum :: "binary64 list \<Rightarrow> binary64" where
  "left_sum xs = fold (\<lambda>x s. case (s, x) of (Finite a, Finite b) \<Rightarrow> rnd (a + b) | _ \<Rightarrow> NaN) xs (Finite 0)"

definition candlestick_1d :: request where
  "candlestick_1d = \<lparr>ticker = ''ADBE'', time_period = ''1d'', chart_type = ''Candlestick'',
                      indicators = [], update = True\<rparr>"

definition three_rows :: table where
  "three_rows = \<lparr>index = RangeIndex 3,
     columns = [''Datetime'', ''Open'', ''High'', ''Low'', ''Close'', ''Volume''],
     data = [Datetimes (Some ''US/Eastern'') [0, 60, 120], Floats [Finite 10, Finite 11, Finite 12],
             Floats [Finite 11, Finite 12, Finite 13], Floats [Finite 9, Finite 10, Finite 11],
             Floats [Finite 10, Finite 12, Finite 13], Ints [100, 200, 300]]\<rparr>"

definition five_rows :: table where
  "five_rows = \<lparr>index = RangeIndex 5,
     columns = [''Datetime'', ''Open'', ''High'', ''Low'', ''Close'', ''Volume''],
     data = [Datetimes (Some ''US/Eastern'') [0, 60, 120, 180, 240],
             Floats [Finite 10, Finite 11, Finite 12, Finite 13, Finite 14],
             Floats [Finite 11, Finite 12, Finite 13, Finite 14, Finite 15],
             Floats [Finite 9, Finite 10, Finite 11, Finite 12, Finite 13],
             Floats [Finite 10, Finite 12, Finite 13, Finite 14, Finite 15],
             Ints [100, 200, 300, 400, 500]]\<rparr>"

definition no_rows :: raw_table where
  "no_rows = \<lparr>index = DatetimeIndex (Some ''Datetime'') None [], columns = Index [], data = []\<rparr>"

definition empty_source :: "yf_request \<Rightarrow> error + raw_table" where
  "empty_source r = Inr no_rows"

definition two_rows :: raw_table where
  "two_rows = \<lparr>index = DatetimeIndex (Some ''Datetime'') (Some ''UTC'') [0, 60],
     columns = MultiIndex [[''Close'', ''X''], [''Open'', ''X'']],
     data = [Floats [Finite 10, Finite 11], Floats [Finite 10, Finite 10]]\<rparr>"

definition two_rows_source :: "yf_request \<Rightarrow> error + raw_table" where
  "two_rows_source r = Inr two_rows"

text \<open>A data source that raises for the first watchlist symbol and answers every other request.\<close>

definition aapl_fails :: "yf_request \<Rightarrow> error + raw_table" where
  "aapl_fails r =
     (if r = Period ''AAPL'' ''1d'' ''1m'' then Inl (DownloadError ''AAPL'') else Inr two_rows)"

text \<open>A data source that raises for the request of the main chart for ADBE over one day.\<close>

definition adbe_fails :: "yf_request \<Rightarrow> error + raw_table" where
  "adbe_fails r =
     (if r = Period ''ADBE'' ''1d'' ''5m'' then Inl (DownloadError ''ADBE'') else Inr two_rows)"

text \<open>A data source that answers requests for minute data only, with an empty table.\<close>

definition minute_source :: "yf_request \<Rightarrow> error + raw_table" where
  "minute_source r =
     (case r of
        Period s p i \<Rightarrow> if i = ''1m'' then Inr no_rows else Inl (DownloadError s)
      | Start_end s a b i \<Rightarrow> Inl (DownloadError s))"

definition zero_close :: table where
  "zero_close = \<lparr>index = RangeIndex 2,
     columns = [''Datetime'', ''Open'', ''High'', ''Low'', ''Close'', ''Volume''],
     data = [Datetimes (Some ''US/Eastern'') [0, 60], Floats [Finite 0, Finite 1],
             Floats [Finite 1, Finite 2], Floats [Finite 0, Finite 1],
             Floats [Finite 0, Finite 2], Ints [100, 200]]\<rparr>"

text \<open>Two rows whose percent change is not a binary64 number before rounding.\<close>

definition thirds :: table where
  "thirds = \<lparr>index = RangeIndex 2,
     columns = [''Datetime'', ''Open'', ''High'', ''Low'', ''Close'', ''Volume''],
     data = [Datetimes (Some ''US/Eastern'') [0, 60], Floats [Finite 3, Finite 9],
             Floats [Finite 4, Finite 11], Floats [Finite 2, Finite 8],
             Floats [Finite 3, Finite 10], Ints [4611686018427387904, 4611686018427387904]]\<rparr>"

text \<open>The same rows with the volume as floats.\<close>

definition thirds_float_volume :: table where
  "thirds_float_volume = \<lparr>index = RangeIndex 2,
     columns = [''Datetime'', ''Open'', ''High'', ''Low'', ''Close'', ''Volume''],
     data = [Datetimes (Some ''US/Eastern'') [0, 60], Floats [Finite 3, Finite 9],
             Floats [Finite 4, Finite 11], Floats [Finite 2, Finite 8],
             Floats [Finite 3, Finite 10], Floats [Finite (5 / 2), Finite 4]]\<rparr>"

definition twenty_rows :: table where
  "twenty_rows = \<lparr>index = RangeIndex 20,
     columns = [''Datetime'', ''Close'', ''High'', ''Low'', ''Open'', ''Volume''],
     data = [Datetimes (Some ''US/Eastern'') [0, 60, 120, 180, 240, 300, 360, 420, 480, 540, 600, 660, 720, 780, 840, 900, 960, 1020, 1080, 1140],
             Floats [Finite 1, Finite 2, Finite 3, Finite 4, Finite 5, Finite 6, Finite 7, Finite 8, Finite 9, Finite 10, Finite 11, Finite 12, Finite 13, Finite 14, Finite 15, Finite 16, Finite 17, Finite 18, Finite 19, Finite 20],
             Floats [Finite 2, Finite 3, Finite 4, Finite 5, Finite 6, Finite 7, Finite 8, Finite 9, Finite 10, Finite 11, Finite 12, Finite 13, Finite 14, Finite 15, Finite 16, Finite 17, Finite 18, Finite 19, Finite 20, Finite 21],
             Floats [Finite 0, Finite 1, Finite 2, Finite 3, Finite 4, Finite 5, Finite 6, Finite 7, Finite 8, Finite 9, Finite 10, Finite 11, Finite 12, Finite 13, Finite 14, Finite 15, Finite 16, Finite 17, Finite 18, Finite 19],
             Floats [Finite 1, Finite 2, Finite 3, Finite 4, Finite 5, Finite 6, Finite 7, Finite 8, Finite 9, Finite 10, Finite 11, Finite 12, Finite 13, Finite 14, Finite 15, Finite 16, Finite 17, Finite 18, Finite 19, Finite 20],
             Ints [100, 100, 100, 100, 100, 100, 100, 100, 100, 100, 100, 100, 100, 100, 100, 100, 100, 100, 100, 100]]\<rparr>"

definition xyz_labels :: table where
  "xyz_labels = \<lparr>index = RangeIndex 1,
     columns = [''Datetime'', ''Close XYZ'', ''Adj Close XYZ'', ''Dividends''],
     data = [Datetimes (Some ''US/Eastern'') [0], Floats [Finite 1], Floats [Finite 1],
             Floats [Finite 0]]\<rparr>"

text \<open>The raw table of the concrete scenario; what the scenario leaves open is a parameter.\<close>

definition xyz_columns :: "string list list" where
  "xyz_columns = [[''Close'', ''XYZ''], [''Open'', ''XYZ''], [''High'', ''XYZ''],
                  [''Low'', ''XYZ''], [''Volume'', ''XYZ'']]"

definition xyz_closes :: "binary64 list" where
  "xyz_closes = [Finite 100, Finite 101, Finite 102, Finite 103, Finite 104,
                 Finite 105, Finite 106, Finite 107, Finite 108, Finite 109]"

definition xyz_raw :: "string option \<Rightarrow> int list \<Rightarrow> binary64 list \<Rightarrow> binary64 list \<Rightarrow>
    binary64 list \<Rightarrow> 64 word list \<Rightarrow> raw_table" where
  "xyz_raw nm ts opens highs lows volumes =
     \<lparr>index = DatetimeIndex nm None ts, columns = MultiIndex xyz_columns,
      data = [Floats xyz_closes, Floats opens, Floats highs, Floats lows, Ints volumes]\<rparr>"

definition xyz_ts :: "int list" where
  "xyz_ts = [0, 60, 120, 180, 240, 300, 360, 420, 480, 540]"

definition xyz_highs :: "binary64 list" where
  "xyz_highs = [Finite 101, Finite 102, Finite 103, Finite 104, Finite 105,
                Finite 106, Finite 107, Finite 108, Finite 109, Finite 110]"

definition xyz_lows :: "binary64 list" where
  "xyz_lows = [Finite 99, Finite 100, Finite 101, Finite 102, Finite 103,
               Finite 104, Finite 105, Finite 106, Finite 107, Finite 108]"

definition xyz_volumes :: "64 word list" where
  "xyz_volumes = [1000, 1000, 1000, 1000, 1000, 1000, 1000, 1000, 1000, 1000]"

text \<open>
  A raw table with the five price and volume fields and the two fields of corporate
  actions, for one symbol.
\<close>

definition actions_raw :: raw_table where
  "actions_raw = \<lparr>index = DatetimeIndex (Some ''Date'') None [0, 86400, 172800],
     columns = MultiIndex [[''Close'', ''XYZ''], [''Dividends'', ''XYZ''], [''High'', ''XYZ''],
                           [''Low'', ''XYZ''], [''Open'', ''XYZ''], [''Stock Splits'', ''XYZ''],
                           [''Volume'', ''XYZ'']],
     data = [Floats [Finite 10, Finite 12, Finite 13], Floats [Finite 0, Finite 0, Finite 0],
             Floats [Finite 11, Finite 12, Finite 13], Floats [Finite 9, Finite 10, Finite 11],
             Floats [Finite 10, Finite 11, Finite 12], Floats [Finite 0, Finite 0, Finite 0],
             Ints [100, 200, 300]]\<rparr>"

text \<open>A raw table with the six fields that the data source delivers without price adjustment.\<close>

definition adj_close_raw :: raw_table where
  "adj_close_raw = \<lparr>index = DatetimeIndex (Some ''Date'') None [0, 86400],
     columns = MultiIndex [[''Adj Close'', ''XYZ''], [''Close'', ''XYZ''], [''High'', ''XYZ''],
                           [''Low'', ''XYZ''], [''Open'', ''XYZ''], [''Volume'', ''XYZ'']],
     data = [Floats [Finite 10, Finite 11], Floats [Finite 10, Finite 11],
             Floats [Finite 11, Finite 12], Floats [Finite 9, Finite 10],
             Floats [Finite 10, Finite 10], Ints [100, 200]]\<rparr>"

section \<open>Properties of the orchestrator\<close>

text \<open>
  Claim C3.  When the fetch result is empty or has fewer than two rows, the main chart
  handler shows the warning about insufficient data and stops: its trace is the call of
  \<^verbatim>\<open>fetch_stock_data\<close> followed by that warning, so neither \<^verbatim>\<open>process_data\<close> nor
  \<^verbatim>\<open>normalize_column_names\<close>, \<^verbatim>\<open>calculate_metrics\<close> or \<^verbatim>\<open>add_technical_indicators\<close> is called,
  and no error is shown.
\<close>

theorem main_chart_insufficient_data:
  assumes "update rq"
    and "interval_mapping (time_period rq) = Some interval"
    and "fetch_stock_data download now (ticker rq) (time_period rq) interval = Inr raw"
    and "empty raw \<or> len raw < 2"
  shows "main_chart download ema np_sum now rq =
           [Calls ''fetch_stock_data'' [ticker rq, time_period rq, interval],
            St_warning ''Not enough data to display chart.'']
         \<and> Calls ''process_data'' [] \<notin> set (main_chart download ema np_sum now rq)
         \<and> Calls ''normalize_column_names'' [] \<notin> set (main_chart download ema np_sum now rq)
         \<and> Calls ''calculate_metrics'' [] \<notin> set (main_chart download ema np_sum now rq)
         \<and> Calls ''add_technical_indicators'' [] \<notin> set (main_chart download ema np_sum now rq)"
proof -
  have "main_chart download ema np_sum now rq =
           [Calls ''fetch_stock_data'' [ticker rq, time_period rq, interval],
            St_warning ''Not enough data to display chart.'']"
    using assms by (simp add: main_chart_def)
  then show ?thesis by simp
qed

theorem main_chart_insufficient_data_witness:
  "update candlestick_1d
   \<and> interval_mapping (time_period candlestick_1d) = Some ''5m''
   \<and> fetch_stock_data one_row_source 0 ''ADBE'' ''1d'' ''5m'' = Inr one_row
   \<and> len one_row = 1
   \<and> main_chart one_row_source no_ema left_sum 0 candlestick_1d =
       [Calls ''fetch_stock_data'' [''ADBE'', ''1d'', ''5m''],
        St_warning ''Not enough data to display chart.'']"
  using main_chart_insufficient_data [of candlestick_1d "''5m''" one_row_source 0 one_row no_ema
      left_sum]
  by (simp add: candlestick_1d_def interval_mapping_def fetch_stock_data_def one_row_source_def
      one_row_def len_def)

text \<open>
  Claim C10.  In the watchlist loop a symbol whose fetch returns an empty table is skipped
  in silence: the pass for that symbol consists of the fetch call alone (no metric, no
  warning, no exception), and the loop goes on with the remaining symbols.
\<close>

theorem watchlist_skips_empty:
  assumes "fetch_stock_data download now symbol ''1d'' ''1m'' = Inr raw"
    and "empty raw"
  shows "watch_symbol download now symbol =
           ([Calls ''fetch_stock_data'' [symbol, ''1d'', ''1m'']], None)
       \<and> watchlist_loop download now (symbol # rest) =
           (Calls ''fetch_stock_data'' [symbol, ''1d'', ''1m'']
              # fst (watchlist_loop download now rest),
            snd (watchlist_loop download now rest))"
proof -
  have "watch_symbol download now symbol =
          ([Calls ''fetch_stock_data'' [symbol, ''1d'', ''1m'']], None)"
    using assms by (simp add: watch_symbol_def)
  then show ?thesis by (simp add: split_beta)
qed

theorem watchlist_skips_empty_witness:
  "fetch_stock_data empty_source 0 ''AAPL'' ''1d'' ''1m'' = Inr no_rows
   \<and> empty no_rows
   \<and> watch_symbol empty_source 0 ''AAPL'' =
       ([Calls ''fetch_stock_data'' [''AAPL'', ''1d'', ''1m'']], None)
   \<and> watchlist_loop empty_source 0 [''AAPL'', ''GOOGL''] =
       ([Calls ''fetch_stock_data'' [''AAPL'', ''1d'', ''1m''],
         Calls ''fetch_stock_data'' [''GOOGL'', ''1d'', ''1m'']], None)"
  using watchlist_skips_empty [of empty_source 0 "''AAPL''" no_rows "[''GOOGL'']"]
    watchlist_skips_empty [of empty_source 0 "''GOOGL''" no_rows "[]"]
  by (simp add: fetch_stock_data_def empty_source_def no_rows_def empty_def len_def)

lemma count_list_distinct: "distinct xs \<Longrightarrow> x \<in> set xs \<Longrightarrow> count_list xs x = 1"
  by (induction xs) (auto simp: count_list_0_iff)

lemma canonical_has_columns:
  "canonical d \<Longrightarrow> set ks \<subseteq> set (''Datetime'' # ohlcv) \<Longrightarrow> has_columns d ks"
  by (auto simp: canonical_def has_columns_def list_all_iff)

lemma canonical_single_columns:
  assumes "canonical d" and "set ks \<subseteq> set (''Datetime'' # ohlcv)"
  shows "single_columns d ks"
proof -
  have "distinct (columns d)" using assms(1) by (simp add: canonical_def)
  moreover have "\<And>k. k \<in> set ks \<Longrightarrow> k \<in> set (columns d)"
    using canonical_has_columns [OF assms] by (simp add: has_columns_def)
  ultimately show ?thesis by (simp add: single_columns_def count_list_distinct)
qed

text \<open>
  Claim C8.  For a canonical table and the chart type candlestick, the chart-type branch
  downgrades to a line chart and shows the downgrade warning when the table has fewer than
  five rows, and builds a candlestick chart with no warning when it has five or more.
\<close>

theorem chart_type_policy:
  assumes "canonical d"
  shows "chart_branch ''Candlestick'' d =
           (if len d < 5
            then ([St_warning ''Not enough candles. Showing line chart instead.''], Inr (Line []))
            else ([], Inr (Candlestick [])))"
proof -
  have "has_columns d [''Datetime'', ''Open'', ''High'', ''Low'', ''Close'']"
    using assms by (rule canonical_has_columns) (simp add: ohlcv_def)
  moreover have "single_columns d [''Datetime'', ''Open'', ''High'', ''Low'', ''Close'']"
    using assms by (rule canonical_single_columns) (simp add: ohlcv_def)
  moreover have "single_columns d [''Datetime'', ''Close'']"
    using assms by (rule canonical_single_columns) (simp add: ohlcv_def)
  ultimately show ?thesis by (simp add: chart_branch_def trace_columns_def)
qed

theorem chart_type_policy_witness:
  "canonical three_rows \<and> len three_rows = 3
   \<and> chart_branch ''Candlestick'' three_rows =
       ([St_warning ''Not enough candles. Showing line chart instead.''], Inr (Line []))
   \<and> canonical five_rows \<and> len five_rows = 5
   \<and> chart_branch ''Candlestick'' five_rows = ([], Inr (Candlestick []))"
proof -
  have c3: "canonical three_rows"
    by (simp add: canonical_def three_rows_def ohlcv_def len_def finite_values_def)
  have c5: "canonical five_rows"
    by (simp add: canonical_def five_rows_def ohlcv_def len_def finite_values_def)
  have l3: "len three_rows = 3" by (simp add: three_rows_def len_def)
  have l5: "len five_rows = 5" by (simp add: five_rows_def len_def)
  show ?thesis
    using c3 c5 l3 l5 chart_type_policy [OF c3] chart_type_policy [OF c5] by simp
qed

section \<open>Fetch requests\<close>

lemma render_no_fetch: "Calls ''fetch_stock_data'' a \<notin> set (caught (render rq d))"
  by (auto simp: caught_def render_def chart_branch_def
      split: prod.splits sum.splits option.splits if_splits)

lemma main_chart_fetch:
  assumes "Calls ''fetch_stock_data'' a \<in> set (main_chart download ema np_sum now rq)"
  shows "\<exists>iv. interval_mapping (time_period rq) = Some iv \<and> a = [ticker rq, time_period rq, iv]"
proof (cases "add_technical_indicators ema (normalize_column_names (projr (process_data
    (projr (fetch_stock_data download now (ticker rq) (time_period rq)
      (the (interval_mapping (time_period rq))))))))")
  case (Inl e)
  with assms show ?thesis
    by (auto simp: main_chart_def Let_def render_no_fetch
        split: option.split_asm sum.split_asm prod.split_asm if_split_asm)
next
  case (Inr d3)
  with assms show ?thesis
    by (auto simp: main_chart_def Let_def render_no_fetch
        split: option.split_asm sum.split_asm prod.split_asm if_split_asm)
qed

lemma watch_symbol_fetch:
  assumes "Calls ''fetch_stock_data'' a \<in> set (fst (watch_symbol download now s))"
  shows "a = [s, ''1d'', ''1m'']"
  using assms
  by (auto simp: watch_symbol_def Let_def
      split: option.splits sum.splits prod.splits if_splits col_index.splits)

lemma watchlist_loop_fetch:
  assumes "Calls ''fetch_stock_data'' a \<in> set (fst (watchlist_loop download now syms))"
  shows "\<exists>s \<in> set syms. a = [s, ''1d'', ''1m'']"
  using assms
proof (induction syms)
  case Nil
  then show ?case by simp
next
  case (Cons s syms)
  then show ?case
    using watch_symbol_fetch [of a download now s]
    by (auto split: prod.splits option.splits)
qed

text \<open>
  The handlers consult the data source through \<^verbatim>\<open>fetch_stock_data\<close> only, so their runs are
  the same for two data sources that agree on the requests named here, and a data source
  that raises on such a request is seen to raise.
\<close>

lemma main_chart_source:
  assumes "\<And>iv. interval_mapping (time_period rq) = Some iv \<Longrightarrow>
      download (fetch_request now (ticker rq) (time_period rq) iv) =
      download' (fetch_request now (ticker rq) (time_period rq) iv)"
  shows "main_chart download ema np_sum now rq = main_chart download' ema np_sum now rq"
  using assms by (simp add: main_chart_def fetch_stock_data_def split: option.split)

lemma main_chart_fetch_raises:
  assumes "update rq" and "interval_mapping (time_period rq) = Some iv"
    and "download (fetch_request now (ticker rq) (time_period rq) iv) = Inl e"
  shows "main_chart download ema np_sum now rq =
           [Calls ''fetch_stock_data'' [ticker rq, time_period rq, iv], St_error e]"
  using assms by (simp add: main_chart_def fetch_stock_data_def)

lemma watch_symbol_source:
  assumes "download (Period s ''1d'' ''1m'') = download' (Period s ''1d'' ''1m'')"
  shows "watch_symbol download now s = watch_symbol download' now s"
  using assms by (simp add: watch_symbol_def fetch_stock_data_def fetch_request_def)

lemma watchlist_loop_source:
  assumes "\<And>s. s \<in> set syms \<Longrightarrow>
      download (Period s ''1d'' ''1m'') = download' (Period s ''1d'' ''1m'')"
  shows "watchlist_loop download now syms = watchlist_loop download' now syms"
  using assms
proof (induction syms)
  case Nil
  then show ?case by simp
next
  case (Cons s syms)
  have "watch_symbol download now s = watch_symbol download' now s"
    using Cons.prems by (intro watch_symbol_source) simp
  moreover have "watchlist_loop download now syms = watchlist_loop download' now syms"
    using Cons by simp
  ultimately show ?case by simp
qed

lemma watch_symbol_fetch_raises:
  assumes "download (Period s ''1d'' ''1m'') = Inl e"
  shows "watch_symbol download now s = ([Calls ''fetch_stock_data'' [s, ''1d'', ''1m'']], Some e)"
  using assms by (simp add: watch_symbol_def fetch_stock_data_def fetch_request_def)

text \<open>
  Claim C9, as stated, fails: the watchlist loop fetches period \<^verbatim>\<open>1d\<close> with interval \<^verbatim>\<open>1m\<close>,
  while the interval mapping sends \<^verbatim>\<open>1d\<close> to \<^verbatim>\<open>5m\<close>.  On a data source that raises for the
  request (AAPL, 1d, 1m) and for no other, the pass for AAPL raises.
\<close>

theorem watchlist_interval_not_mapped:
  "Calls ''fetch_stock_data'' [''AAPL'', ''1d'', ''1m'']
     \<in> set (fst (watchlist_loop empty_source 0 stock_symbols))
   \<and> interval_mapping ''1d'' = Some ''5m''
   \<and> aapl_fails (Period ''AAPL'' ''1d'' ''5m'') = Inr two_rows
   \<and> watch_symbol aapl_fails 0 ''AAPL'' =
       ([Calls ''fetch_stock_data'' [''AAPL'', ''1d'', ''1m'']], Some (DownloadError ''AAPL''))"
  by (simp add: stock_symbols_def watch_symbol_def fetch_stock_data_def empty_source_def
      no_rows_def empty_def len_def interval_mapping_def aapl_fails_def fetch_request_def)

text \<open>
  Claim C9, amended.  Every fetch of the main chart handler takes its interval from the
  period by the interval mapping, which is the table 1d to 5m, 1wk to 30m, 1mo to 1d, 1y to
  1wk, max to 1wk; every fetch of the watchlist loop asks for period 1d with interval 1m.
  \<^verbatim>\<open>fetch_stock_data\<close> turns period 1wk into the explicit window from seven days before now
  until now, and hands every other period token to the data source as it is.  These are
  the requests that reach the data source: the run of the main chart handler depends on
  the data source through the one request for its ticker, its period and the mapped
  interval, and shows the error when the data source raises on it; the run of the
  watchlist loop depends on the data source through the requests (symbol, 1d, 1m) of its
  symbols, and a pass ends with the error when the data source raises on its request.
\<close>

theorem fetch_requests:
  "(Calls ''fetch_stock_data'' a \<in> set (main_chart download ema np_sum now rq) \<longrightarrow>
      (\<exists>iv. interval_mapping (time_period rq) = Some iv \<and> a = [ticker rq, time_period rq, iv]))
   \<and> (Calls ''fetch_stock_data'' b \<in> set (fst (watchlist_loop download now syms)) \<longrightarrow>
      (\<exists>s \<in> set syms. b = [s, ''1d'', ''1m'']))
   \<and> interval_mapping p =
       (if p = ''1d'' then Some ''5m'' else if p = ''1wk'' then Some ''30m''
        else if p = ''1mo'' then Some ''1d'' else if p = ''1y'' then Some ''1wk''
        else if p = ''max'' then Some ''1wk'' else None)
   \<and> fetch_stock_data download now t p i =
       download (if p = ''1wk'' then Start_end t (now - 7 * 86400000000) now i
                 else Period t p i)
   \<and> ((\<forall>iv. interval_mapping (time_period rq) = Some iv \<longrightarrow>
          download (fetch_request now (ticker rq) (time_period rq) iv) =
          download' (fetch_request now (ticker rq) (time_period rq) iv)) \<longrightarrow>
        main_chart download ema np_sum now rq = main_chart download' ema np_sum now rq)
   \<and> (update rq \<and> interval_mapping (time_period rq) = Some iv
        \<and> download (fetch_request now (ticker rq) (time_period rq) iv) = Inl e \<longrightarrow>
        main_chart download ema np_sum now rq =
          [Calls ''fetch_stock_data'' [ticker rq, time_period rq, iv], St_error e])
   \<and> ((\<forall>s \<in> set syms. download (Period s ''1d'' ''1m'') = download' (Period s ''1d'' ''1m'')) \<longrightarrow>
        watchlist_loop download now syms = watchlist_loop download' now syms)
   \<and> (download (Period s ''1d'' ''1m'') = Inl e' \<longrightarrow>
        watch_symbol download now s =
          ([Calls ''fetch_stock_data'' [s, ''1d'', ''1m'']], Some e'))"
proof -
  have "interval_mapping p =
       (if p = ''1d'' then Some ''5m'' else if p = ''1wk'' then Some ''30m''
        else if p = ''1mo'' then Some ''1d'' else if p = ''1y'' then Some ''1wk''
        else if p = ''max'' then Some ''1wk'' else None)"
    by (simp add: interval_mapping_def)
  moreover have "fetch_stock_data download now t p i =
       download (if p = ''1wk'' then Start_end t (now - 7 * 86400000000) now i
                 else Period t p i)"
    by (simp add: fetch_stock_data_def fetch_request_def timedelta_days_def)
  moreover have "(\<forall>iv. interval_mapping (time_period rq) = Some iv \<longrightarrow>
          download (fetch_request now (ticker rq) (time_period rq) iv) =
          download' (fetch_request now (ticker rq) (time_period rq) iv)) \<longrightarrow>
        main_chart download ema np_sum now rq = main_chart download' ema np_sum now rq"
    using main_chart_source [of rq download now download' ema np_sum] by blast
  moreover have "(\<forall>s \<in> set syms. download (Period s ''1d'' ''1m'') = download' (Period s ''1d'' ''1m'')) \<longrightarrow>
        watchlist_loop download now syms = watchlist_loop download' now syms"
    using watchlist_loop_source [of syms download download' now] by blast
  ultimately show ?thesis
    using main_chart_fetch [of a download ema np_sum now rq]
      watchlist_loop_fetch [of b download now syms]
      main_chart_fetch_raises [of rq iv download now e ema np_sum]
      watch_symbol_fetch_raises [of download s e' now]
    by blast
qed

theorem fetch_requests_witness:
  "Calls ''fetch_stock_data'' [''ADBE'', ''1d'', ''5m'']
     \<in> set (main_chart one_row_source no_ema left_sum 0 candlestick_1d)
   \<and> interval_mapping (time_period candlestick_1d) = Some ''5m''
   \<and> Calls ''fetch_stock_data'' [''MSFT'', ''1d'', ''1m'']
     \<in> set (fst (watchlist_loop empty_source 0 stock_symbols))
   \<and> interval_mapping ''1wk'' = Some ''30m''
   \<and> fetch_stock_data one_row_source 604800000000 ''ADBE'' ''1wk'' ''30m'' =
       one_row_source (Start_end ''ADBE'' 0 604800000000 ''30m'')
   \<and> aapl_fails (Period ''AAPL'' ''1d'' ''1m'') = Inl (DownloadError ''AAPL'')
   \<and> watch_symbol aapl_fails 0 ''AAPL'' =
       ([Calls ''fetch_stock_data'' [''AAPL'', ''1d'', ''1m'']], Some (DownloadError ''AAPL''))
   \<and> main_chart aapl_fails no_ema left_sum 0
       (candlestick_1d\<lparr>ticker := ''AAPL'', time_period := ''1d''\<rparr>)
     = main_chart two_rows_source no_ema left_sum 0
       (candlestick_1d\<lparr>ticker := ''AAPL'', time_period := ''1d''\<rparr>)
   \<and> adbe_fails (fetch_request 0 ''ADBE'' ''1d'' ''5m'') = Inl (DownloadError ''ADBE'')
   \<and> main_chart adbe_fails no_ema left_sum 0 candlestick_1d =
       [Calls ''fetch_stock_data'' [''ADBE'', ''1d'', ''5m''], St_error (DownloadError ''ADBE'')]
   \<and> minute_source (Period ''ADBE'' ''1d'' ''5m'') = Inl (DownloadError ''ADBE'')
   \<and> watchlist_loop minute_source 0 stock_symbols = watchlist_loop empty_source 0 stock_symbols"
proof -
  note f1 = fetch_requests [where a = "[''ADBE'', ''1d'', ''5m'']" and download = one_row_source
      and ema = no_ema and np_sum = left_sum and now = 0 and rq = candlestick_1d and b = "[]"
      and syms = "[]" and p = "''1wk''" and t = "''ADBE''" and i = "''30m''"]
  note f2 = fetch_requests [where a = "[]" and download = empty_source
      and ema = no_ema and np_sum = left_sum and now = 0 and rq = candlestick_1d
      and b = "[''MSFT'', ''1d'', ''1m'']"
      and syms = stock_symbols and p = "''1wk''" and t = "''ADBE''" and i = "''30m''"]
  note f3 = fetch_requests [where a = "[]" and download = one_row_source
      and ema = no_ema and np_sum = left_sum and now = 604800000000 and rq = candlestick_1d
      and b = "[]" and syms = "[]" and p = "''1wk''" and t = "''ADBE''" and i = "''30m''"]
  note f4 = fetch_requests [where download = aapl_fails and download' = two_rows_source
      and ema = no_ema and np_sum = left_sum and now = 0
      and rq = "candlestick_1d\<lparr>ticker := ''AAPL'', time_period := ''1d''\<rparr>"
      and s = "''AAPL''" and e' = "DownloadError ''AAPL''"]
  note f5 = fetch_requests [where download = adbe_fails and ema = no_ema and np_sum = left_sum
      and now = 0 and rq = candlestick_1d and iv = "''5m''" and e = "DownloadError ''ADBE''"]
  note f6 = fetch_requests [where download = minute_source and download' = empty_source
      and now = 0 and syms = stock_symbols]
  have a: "aapl_fails (Period ''AAPL'' ''1d'' ''1m'') = Inl (DownloadError ''AAPL'')"
    by (simp add: aapl_fails_def)
  have m: "\<forall>iv. interval_mapping (time_period (candlestick_1d\<lparr>ticker := ''AAPL'', time_period := ''1d''\<rparr>)) = Some iv \<longrightarrow>
      aapl_fails (fetch_request 0 (ticker (candlestick_1d\<lparr>ticker := ''AAPL'', time_period := ''1d''\<rparr>))
         (time_period (candlestick_1d\<lparr>ticker := ''AAPL'', time_period := ''1d''\<rparr>)) iv) =
      two_rows_source (fetch_request 0 (ticker (candlestick_1d\<lparr>ticker := ''AAPL'', time_period := ''1d''\<rparr>))
         (time_period (candlestick_1d\<lparr>ticker := ''AAPL'', time_period := ''1d''\<rparr>)) iv)"
    by (simp add: interval_mapping_def aapl_fails_def fetch_request_def two_rows_source_def)
  have w: "watch_symbol aapl_fails 0 ''AAPL'' =
       ([Calls ''fetch_stock_data'' [''AAPL'', ''1d'', ''1m'']], Some (DownloadError ''AAPL''))"
    using f4 a by blast
  have e: "main_chart aapl_fails no_ema left_sum 0
       (candlestick_1d\<lparr>ticker := ''AAPL'', time_period := ''1d''\<rparr>)
     = main_chart two_rows_source no_ema left_sum 0
       (candlestick_1d\<lparr>ticker := ''AAPL'', time_period := ''1d''\<rparr>)"
    using f4 m by blast
  have r: "update candlestick_1d \<and> interval_mapping (time_period candlestick_1d) = Some ''5m''
      \<and> adbe_fails (fetch_request 0 (ticker candlestick_1d) (time_period candlestick_1d) ''5m'') =
          Inl (DownloadError ''ADBE'')"
    by (simp add: candlestick_1d_def interval_mapping_def adbe_fails_def fetch_request_def)
  have g: "main_chart adbe_fails no_ema left_sum 0 candlestick_1d =
       [Calls ''fetch_stock_data'' [ticker candlestick_1d, time_period candlestick_1d, ''5m''],
        St_error (DownloadError ''ADBE'')]"
    using f5 r by blast
  have q: "\<forall>s \<in> set stock_symbols.
      minute_source (Period s ''1d'' ''1m'') = empty_source (Period s ''1d'' ''1m'')"
    by (simp add: minute_source_def empty_source_def)
  have h: "watchlist_loop minute_source 0 stock_symbols = watchlist_loop empty_source 0 stock_symbols"
    using f6 q by blast
  have k: "adbe_fails (fetch_request 0 ''ADBE'' ''1d'' ''5m'') = Inl (DownloadError ''ADBE'')"
    "minute_source (Period ''ADBE'' ''1d'' ''5m'') = Inl (DownloadError ''ADBE'')"
    by (simp_all add: adbe_fails_def fetch_request_def minute_source_def)
  have g': "main_chart adbe_fails no_ema left_sum 0 candlestick_1d =
       [Calls ''fetch_stock_data'' [''ADBE'', ''1d'', ''5m''], St_error (DownloadError ''ADBE'')]"
    using g by (simp add: candlestick_1d_def)
  have c: "Calls ''fetch_stock_data'' [''ADBE'', ''1d'', ''5m'']
     \<in> set (main_chart one_row_source no_ema left_sum 0 candlestick_1d)
   \<and> interval_mapping (time_period candlestick_1d) = Some ''5m''
   \<and> Calls ''fetch_stock_data'' [''MSFT'', ''1d'', ''1m'']
     \<in> set (fst (watchlist_loop empty_source 0 stock_symbols))
   \<and> interval_mapping ''1wk'' = Some ''30m''
   \<and> fetch_stock_data one_row_source 604800000000 ''ADBE'' ''1wk'' ''30m'' =
       one_row_source (Start_end ''ADBE'' 0 604800000000 ''30m'')"
    using f1 f2 f3
    by (simp add: stock_symbols_def watch_symbol_def fetch_stock_data_def empty_source_def
        no_rows_def empty_def len_def interval_mapping_def candlestick_1d_def main_chart_def
        one_row_source_def one_row_def)
  show ?thesis using c a w e k(1) g' k(2) h by (intro conjI) simp_all
qed

section \<open>Errors in the watchlist loop\<close>

text \<open>
  What the \<^verbatim>\<open>try\<close> block of the loop does cover: when fetching and normalizing succeed and
  reading the prices raises, the symbol gets its inline warning and the pass ends normally.
\<close>

lemma watch_prices_error_isolated:
  assumes "fetch_stock_data download now symbol ''1d'' ''1m'' = Inr raw"
    and "\<not> empty raw" and "columns raw = Index ls"
    and "process_data raw = Inr d1"
    and "watch_prices (normalize_column_names d1) = Inl e"
  shows "watch_symbol download now symbol =
           ([Calls ''fetch_stock_data'' [symbol, ''1d'', ''1m''], Calls ''process_data'' [],
             Calls ''normalize_column_names'' [], Sidebar_warning symbol e], None)"
  using assms by (simp add: watch_symbol_def)

text \<open>
  Claim C6, on a data source that raises for the first symbol and delivers two rows for
  every other symbol: the exception leaves the loop.  The trace ends after the fetch call
  for AAPL, without a warning for AAPL, and GOOGL, AMZN and MSFT are never fetched.
\<close>

theorem watchlist_fetch_error_aborts:
  "watchlist_loop aapl_fails 0 stock_symbols =
     ([Calls ''fetch_stock_data'' [''AAPL'', ''1d'', ''1m'']], Some (DownloadError ''AAPL''))"
  by (simp add: stock_symbols_def watch_symbol_def fetch_stock_data_def aapl_fails_def
      fetch_request_def)

section \<open>Properties of the binary64 arithmetic\<close>

text \<open>
  The exponent \<open>ilog2 x\<close> of a positive \<open>x\<close> is the one with \<open>2\<^sup>e \<le> x < 2\<^sup>e\<^sup>+\<^sup>1\<close>, and a finite
  result of \<^const>\<open>rnd\<close> is a multiple of the spacing at the exponent of \<open>x\<close>, at most half a
  spacing away from \<open>x\<close>.
\<close>

lemma ilog2_large:
  assumes "1 \<le> x"
  shows "2 powi ilog2 x \<le> x \<and> x < 2 powi (ilog2 x + 1)"
proof -
  let ?n = "\<lfloor>x\<rfloor>"
  have n: "0 < ?n" using assms by linarith
  from bitlen_bounds [OF n] have b: "2 ^ nat (bitlen ?n - 1) \<le> ?n" "?n < 2 ^ nat (bitlen ?n)"
    by simp_all
  have b1: "1 \<le> bitlen ?n" using n by (simp add: bitlen_alt_def)
  have "real_of_int (2 ^ nat (bitlen ?n - 1)) \<le> real_of_int ?n" using b(1) by linarith
  then have lo: "2 ^ nat (bitlen ?n - 1) \<le> x" by (simp add: le_floor_iff)
  have "?n + 1 \<le> 2 ^ nat (bitlen ?n)" using b(2) by simp
  then have "real_of_int (?n + 1) \<le> real_of_int (2 ^ nat (bitlen ?n))" by linarith
  moreover have "x < real_of_int (?n + 1)" by linarith
  moreover have "real_of_int (2 ^ nat (bitlen ?n)) = 2 ^ nat (bitlen ?n)" by simp
  ultimately have hi: "x < 2 ^ nat (bitlen ?n)" by linarith
  have "ilog2 x = bitlen ?n - 1" using assms by (simp add: ilog2_def)
  moreover have "(2::real) powi (bitlen ?n - 1) = 2 ^ nat (bitlen ?n - 1)"
    using b1 by (simp add: power_int_def)
  moreover have "(2::real) powi (bitlen ?n - 1 + 1) = 2 ^ nat (bitlen ?n)"
    using b1 by (simp add: power_int_def)
  ultimately show ?thesis using lo hi by simp
qed

lemma ilog2_small:
  assumes "0 < x" and "x < 1"
  shows "2 powi ilog2 x \<le> x \<and> x < 2 powi (ilog2 x + 1)"
proof -
  let ?m = "\<lceil>1 / x\<rceil> - 1"
  have t: "1 < 1 / x" using assms by simp
  have m: "0 < ?m" using t by linarith
  have m1: "real_of_int ?m < 1 / x" by linarith
  have m2: "1 / x \<le> real_of_int ?m + 1" by linarith
  from bitlen_bounds [OF m] have b: "2 ^ nat (bitlen ?m - 1) \<le> ?m" "?m < 2 ^ nat (bitlen ?m)"
    by simp_all
  have b1: "1 \<le> bitlen ?m" using m by (simp add: bitlen_alt_def)
  have "real_of_int (2 ^ nat (bitlen ?m - 1)) \<le> real_of_int ?m" using b(1) by linarith
  then have "2 ^ nat (bitlen ?m - 1) < 1 / x" using m1 by simp
  then have hi: "x < 1 / 2 ^ nat (bitlen ?m - 1)"
    using assms(1) by (simp add: field_simps)
  have "?m + 1 \<le> 2 ^ nat (bitlen ?m)" using b(2) by simp
  then have "real_of_int (?m + 1) \<le> real_of_int (2 ^ nat (bitlen ?m))" by linarith
  moreover have "real_of_int (2 ^ nat (bitlen ?m)) = 2 ^ nat (bitlen ?m)" by simp
  moreover have "real_of_int (?m + 1) = real_of_int ?m + 1" by simp
  ultimately have "1 / x \<le> 2 ^ nat (bitlen ?m)" using m2 by linarith
  then have lo: "1 / 2 ^ nat (bitlen ?m) \<le> x"
    using assms(1) by (simp add: field_simps)
  have "ilog2 x = - bitlen ?m" using assms by (simp add: ilog2_def)
  moreover have "(2::real) powi (- bitlen ?m) = 1 / 2 ^ nat (bitlen ?m)"
    using b1 by (simp add: power_int_def field_simps)
  moreover have "(2::real) powi (- bitlen ?m + 1) = 1 / 2 ^ nat (bitlen ?m - 1)"
    using b1 by (cases "bitlen ?m = 1") (simp_all add: power_int_def field_simps nat_diff_distrib)
  ultimately show ?thesis using lo hi by simp
qed

lemma ilog2_bounds:
  assumes "0 < x"
  shows "2 powi ilog2 x \<le> x \<and> x < 2 powi (ilog2 x + 1)"
  using assms ilog2_large [of x] ilog2_small [of x] by (cases "1 \<le> x") simp_all

lemma round_half_even_nearest: "\<bar>of_int (round_half_even t) - t\<bar> \<le> 1 / 2"
proof -
  have "real_of_int \<lfloor>t\<rfloor> \<le> t" "t < real_of_int \<lfloor>t\<rfloor> + 1" by linarith+
  then show ?thesis by (auto simp: round_half_even_def Let_def)
qed

lemma rnd_nearest:
  assumes "rnd x = Finite y" and "u = 2 powi (max (ilog2 \<bar>x\<bar>) (- 1022) - 52)"
  shows "(\<exists>m. y = of_int m * u) \<and> \<bar>y - x\<bar> \<le> u / 2"
proof (cases "x = 0")
  case True
  with assms(1) have "y = 0" by (simp add: rnd_def)
  moreover have "0 < u" using assms(2) by simp
  ultimately show ?thesis using True by (auto intro: exI [of _ 0])
next
  case False
  let ?m = "round_half_even (x / u)"
  have u: "0 < u" using assms(2) by simp
  have y: "y = of_int ?m * u"
    using assms False by (auto simp: rnd_def Let_def split: if_splits)
  have "\<bar>of_int ?m - x / u\<bar> \<le> 1 / 2" by (rule round_half_even_nearest)
  then have "\<bar>of_int ?m - x / u\<bar> * u \<le> 1 / 2 * u"
    using u by (simp only: mult_right_mono less_imp_le)
  moreover have "\<bar>of_int ?m - x / u\<bar> * u = \<bar>of_int ?m * u - x\<bar>"
  proof -
    have "\<bar>of_int ?m - x / u\<bar> * u = \<bar>(of_int ?m - x / u) * u\<bar>"
      using u by (simp add: abs_mult)
    also have "(of_int ?m - x / u) * u = of_int ?m * u - x"
      using u by (simp add: left_diff_distrib)
    finally show ?thesis .
  qed
  ultimately have "\<bar>y - x\<bar> \<le> u / 2" unfolding y by simp
  with y show ?thesis by blast
qed

text \<open>
  A rounding is evaluated from its parts: the exponent \<open>e\<close>, the spacing \<open>u\<close> of the binary64
  numbers at that exponent, and the multiple \<open>y\<close> of \<open>u\<close> nearest to \<open>x\<close>.
\<close>

lemma rnd_eval:
  assumes "x \<noteq> 0" and "max (ilog2 \<bar>x\<bar>) (- 1022) = e" and "2 powi (e - 52) = u"
    and "of_int (round_half_even (x / u)) * u = y" and "\<bar>y\<bar> < 2 ^ 1024"
  shows "rnd x = Finite y"
  using assms by (auto simp: rnd_def Let_def)

lemma rnd_7: "rnd 7 = Finite 7"
  by (rule rnd_eval [where e = 2 and u = "1 / 1125899906842624"])
    (simp, code_simp, code_simp, code_simp, simp)

lemma rnd_7_3: "rnd (7 / 3) = Finite (5254199565265579 / 2251799813685248)"
  by (rule rnd_eval [where e = 1 and u = "1 / 2251799813685248"])
    (simp, code_simp, code_simp, code_simp, simp)

lemma rnd_700_3:
  "rnd (5254199565265579 / 2251799813685248 * 100) = Finite (8209686820727467 / 35184372088832)"
  by (rule rnd_eval [where e = 7 and u = "1 / 35184372088832"])
    (simp, code_simp, code_simp, code_simp, simp)

lemma rnd_5_2: "rnd (0 + 5 / 2) = Finite (5 / 2)"
  by (rule rnd_eval [where e = 1 and u = "1 / 2251799813685248"])
    (simp, code_simp, code_simp, code_simp, simp)

lemma rnd_13_2: "rnd (5 / 2 + 4) = Finite (13 / 2)"
  by (rule rnd_eval [where e = 2 and u = "1 / 1125899906842624"])
    (simp, code_simp, code_simp, code_simp, simp)

lemma rnd_9: "rnd 9 = Finite 9"
  by (rule rnd_eval [where e = 3 and u = "1 / 562949953421312"])
    (simp, code_simp, code_simp, code_simp, simp)

lemma rnd_9_100: "rnd (9 / 100) = Finite (3242591731706757 / 36028797018963968)"
  by (rule rnd_eval [where e = "- 4" and u = "1 / 72057594037927936"])
    (simp, code_simp, code_simp, code_simp, simp)

lemma rnd_9_back: "rnd (3242591731706757 / 36028797018963968 * 100) = Finite 9"
  by (rule rnd_eval [where e = 3 and u = "1 / 562949953421312"])
    (simp, code_simp, code_simp, code_simp, simp)

lemma xyz_arithmetic:
  "fsub (Finite 109) (Finite 100) = Finite 9"
  "fmul (fquot (Finite 9) (Finite 100)) (Finite 100) = Finite 9"
  using rnd_9 by (simp_all only: fsub.simps fquot.simps fmul.simps rnd_9_100 rnd_9_back) simp

section \<open>Properties of the Metrics Calculator\<close>

lemma getitem_zip:
  "distinct cs \<Longrightarrow> length ds = length cs \<Longrightarrow> k \<in> set cs \<Longrightarrow>
   \<exists>s. map_of (zip cs ds) k = Some s \<and> (k, s) \<in> set (zip cs ds)
     \<and> map snd (filter (\<lambda>p. fst p = k) (zip cs ds)) = [s]"
proof (induction cs arbitrary: ds)
  case Nil
  then show ?case by simp
next
  case (Cons c cs)
  then obtain x xs where ds: "ds = x # xs" by (cases ds) auto
  show ?case
  proof (cases "k = c")
    case True
    have "filter (\<lambda>p. fst p = c) (zip cs xs) = []"
      using Cons.prems(1) by (auto simp: filter_empty_conv dest: set_zip_leftD)
    with True ds show ?thesis by simp
  next
    case False
    with Cons ds show ?thesis by auto
  qed
qed

lemma finite_values_Cons:
  "finite_values (x # xs) = (case x of Finite r \<Rightarrow> [r] | _ \<Rightarrow> []) @ finite_values xs"
  by (simp add: finite_values_def)

lemma finite_values_length: "length (finite_values xs) \<le> length xs"
  by (induction xs) (auto simp: finite_values_Cons finite_values_def split: binary64.split)

lemma all_finite:
  "length (finite_values xs) = length xs \<Longrightarrow> xs = map Finite (finite_values xs)"
proof (induction xs)
  case Nil
  then show ?case by (simp add: finite_values_def)
next
  case (Cons x xs)
  have le: "length (finite_values xs) \<le> length xs" by (rule finite_values_length)
  show ?case
  proof (cases x)
    case (Finite r)
    with Cons show ?thesis by (simp add: finite_values_Cons)
  qed (use Cons.prems le in \<open>simp_all add: finite_values_Cons\<close>)
qed

lemma finite_values_map [simp]: "finite_values (map Finite rs) = rs"
  by (induction rs) (simp_all add: finite_values_Cons, simp add: finite_values_def)

lemma canonical_column:
  assumes "canonical d" and "k \<in> set (columns d)"
  shows "\<exists>s. column d k = Some s \<and> getitem d k = Inr (Series s)
            \<and> canonical_series (len d) (k, s)"
proof -
  from assms have dist: "distinct (columns d)" and l: "length (data d) = length (columns d)"
    and all: "list_all (canonical_series (len d)) (zip (columns d) (data d))"
    by (auto simp: canonical_def)
  from getitem_zip [OF dist l assms(2)] obtain s where
    m: "map_of (zip (columns d) (data d)) k = Some s" and
    mem: "(k, s) \<in> set (zip (columns d) (data d))" and
    f: "map snd (filter (\<lambda>p. fst p = k) (zip (columns d) (data d))) = [s]"
    by auto
  from all mem have "canonical_series (len d) (k, s)" by (auto simp: list_all_iff)
  moreover have "getitem d k = Inr (Series s)" using f by (simp add: getitem_def)
  ultimately show ?thesis using m by (auto simp: column_def)
qed

lemma canonical_price:
  assumes "canonical d" and "k \<in> {''Open'', ''High'', ''Low'', ''Close''}"
  shows "getitem d k = Inr (Series (Floats (map Finite (col d k))))
       \<and> length (col d k) = len d"
proof -
  have "k \<in> set (columns d)" using assms by (auto simp: canonical_def ohlcv_def)
  from canonical_column [OF assms(1) this] obtain s where
    c: "column d k = Some s" and g: "getitem d k = Inr (Series s)"
    and cs: "canonical_series (len d) (k, s)" by blast
  have k: "k \<noteq> ''Datetime''" "k \<noteq> ''SMA_20''" "k \<noteq> ''EMA_20''" "k \<noteq> ''Volume''"
    using assms(2) by auto
  with cs obtain xs where s: "s = Floats xs" and n: "length xs = len d"
    and f: "length (finite_values xs) = length xs"
    by (cases s) auto
  have "col d k = finite_values xs" using c s by (simp add: col_def)
  with all_finite [OF f] g s n f show ?thesis by simp
qed

lemma canonical_volume:
  assumes "canonical d"
  shows "(\<exists>ws. column d ''Volume'' = Some (Ints ws)
            \<and> getitem d ''Volume'' = Inr (Series (Ints ws)))
       \<or> (\<exists>xs. column d ''Volume'' = Some (Floats xs)
            \<and> getitem d ''Volume'' = Inr (Series (Floats xs))
            \<and> xs = map Finite (finite_values xs))"
proof -
  have "''Volume'' \<in> set (columns d)" using assms by (auto simp: canonical_def ohlcv_def)
  from canonical_column [OF assms this] obtain s where
    c: "column d ''Volume'' = Some s" and g: "getitem d ''Volume'' = Inr (Series s)"
    and cs: "canonical_series (len d) (''Volume'', s)" by blast
  show ?thesis
  proof (cases s)
    case (Floats xs)
    with cs have "length (finite_values xs) = length xs" by simp
    from all_finite [OF this] c g Floats show ?thesis by simp
  next
    case (Ints ws)
    with c g show ?thesis by simp
  next
    case (Datetimes tz ts)
    with cs show ?thesis by simp
  qed
qed

lemma fold_fmax2: "fold fmax2 (map Finite ys) (Finite y) = Finite (fold max ys y)"
  by (induction ys arbitrary: y) (simp_all add: fmax2_def max_def)

lemma fold_fmin2: "fold fmin2 (map Finite ys) (Finite y) = Finite (fold min ys y)"
  by (induction ys arbitrary: y) (auto simp: fmin2_def min_def)

lemma filter_finite: "filter (\<lambda>x. x \<noteq> NaN) (map Finite rs) = map Finite rs"
  by (induction rs) simp_all

lemma nanmax_finite:
  assumes "rs \<noteq> []"
  shows "nanmax (map Finite rs) = Finite (Max (set rs))"
proof -
  from assms obtain y ys where rs: "rs = y # ys" by (cases rs) auto
  have "nanmax (map Finite (y # ys)) = Finite (fold max ys y)"
    by (simp add: nanmax_def filter_finite fold_fmax2)
  also have "fold max ys y = Max (set (y # ys))" by (rule Max.set_eq_fold [symmetric])
  finally show ?thesis by (simp only: rs)
qed

lemma nanmin_finite:
  assumes "rs \<noteq> []"
  shows "nanmin (map Finite rs) = Finite (Min (set rs))"
proof -
  from assms obtain y ys where rs: "rs = y # ys" by (cases rs) auto
  have "nanmin (map Finite (y # ys)) = Finite (fold min ys y)"
    by (simp add: nanmin_def filter_finite fold_fmin2)
  also have "fold min ys y = Min (set (y # ys))" by (rule Min.set_eq_fold [symmetric])
  finally show ?thesis by (simp only: rs)
qed

lemma nan_to_zero_finite:
  "xs = map Finite rs \<Longrightarrow> map (\<lambda>x. if x = NaN then Finite 0 else x) xs = xs"
  by (induction rs arbitrary: xs) auto

text \<open>
  Claim C2, as stated, fails on a canonical table whose first close is zero: the division
  raises and no metrics are returned.
\<close>

theorem calculate_metrics_zero_close: "canonical zero_close \<and> len zero_close = 2
   \<and> calculate_metrics left_sum zero_close = Inl ZeroDivisionError"
  by (simp add: canonical_def zero_close_def ohlcv_def len_def calculate_metrics_def and_then_def
      getitem_def float_iloc_def py_index_def fdiv_def finite_values_def Let_def)

text \<open>
  Claim C2, amended.  For every canonical table with at least one row whose first close is
  not zero, \<^verbatim>\<open>calculate_metrics\<close> returns the last close; the change, which is the difference
  of the last and the first close rounded to binary64; the percent change, which is the
  change divided by the first close and then multiplied by 100, each of the two operations
  a binary64 operation; the maximum of the High column; the minimum of the Low column; and
  the volume.  For an integer volume column the volume is the sum of the column in 64-bit
  arithmetic, read as a signed integer.  For a float volume column it is the float sum of
  the column truncated to an integer, and the conversion raises when that sum is not
  finite.
\<close>

theorem calculate_metrics_canonical:
  assumes "canonical d" and "1 \<le> len d"
    and "c_first = col d ''Close'' ! 0" and "c_last = col d ''Close'' ! (len d - 1)"
    and "c_first \<noteq> 0"
  shows "((\<exists>ws. column d ''Volume'' = Some (Ints ws)) \<or> (\<exists>xs. column d ''Volume'' = Some (Floats xs)))
       \<and> (\<forall>ws. column d ''Volume'' = Some (Ints ws) \<longrightarrow>
            calculate_metrics np_sum d =
              Inr (Finite c_last, rnd (c_last - c_first),
                   fmul (fquot (rnd (c_last - c_first)) (Finite c_first)) (Finite 100),
                   Finite (Max (set (col d ''High''))), Finite (Min (set (col d ''Low''))),
                   sint (sum_list ws)))
       \<and> (\<forall>xs. column d ''Volume'' = Some (Floats xs) \<longrightarrow>
            calculate_metrics np_sum d =
              (case np_sum xs of
                 Finite s \<Rightarrow>
                   Inr (Finite c_last, rnd (c_last - c_first),
                        fmul (fquot (rnd (c_last - c_first)) (Finite c_first)) (Finite 100),
                        Finite (Max (set (col d ''High''))), Finite (Min (set (col d ''Low''))),
                        trunc s)
               | NaN \<Rightarrow> Inl ValueError
               | _ \<Rightarrow> Inl OverflowError))"
proof -
  let ?close = "col d ''Close''" and ?high = "col d ''High''" and ?low = "col d ''Low''"
  have close: "getitem d ''Close'' = Inr (Series (Floats (map Finite ?close)))"
    "length ?close = len d"
    using canonical_price [OF assms(1), of "''Close''"] by simp_all
  have high: "getitem d ''High'' = Inr (Series (Floats (map Finite ?high)))" "?high \<noteq> []"
    using canonical_price [OF assms(1), of "''High''"] assms(2) by auto
  have low: "getitem d ''Low'' = Inr (Series (Floats (map Finite ?low)))" "?low \<noteq> []"
    using canonical_price [OF assms(1), of "''Low''"] assms(2) by auto
  have l: "float_iloc (Series (Floats (map Finite ?close))) (- 1) = Inr (Finite c_last)"
    using close(2) assms(2,4) by (simp add: float_iloc_def py_index_def nat_diff_distrib')
  have f: "float_iloc (Series (Floats (map Finite ?close))) 0 = Inr (Finite c_first)"
    using close(2) assms(2,3) by (simp add: float_iloc_def py_index_def)
  have hi: "float_max (Series (Floats (map Finite ?high))) = Inr (Finite (Max (set ?high)))"
    using high(2) by (simp add: float_max_def nanmax_finite)
  have lo: "float_min (Series (Floats (map Finite ?low))) = Inr (Finite (Min (set ?low)))"
    using low(2) by (simp add: float_min_def nanmin_finite)
  have d: "fdiv (rnd (c_last - c_first)) (Finite c_first) = Inr (fquot (rnd (c_last - c_first)) (Finite c_first))"
    using assms(5) by (simp add: fdiv_def)
  have m: "calculate_metrics np_sum d =
      and_then (and_then (getitem d ''Volume'') (int_sum np_sum)) (\<lambda>volume.
        Inr (Finite c_last, rnd (c_last - c_first),
             fmul (fquot (rnd (c_last - c_first)) (Finite c_first)) (Finite 100),
             Finite (Max (set ?high)), Finite (Min (set ?low)), volume))"
    by (simp add: calculate_metrics_def close(1) high(1) low(1) l f hi lo d and_then_def Let_def
        cong: sum.case_cong)
  from canonical_volume [OF assms(1)] show ?thesis
  proof
    assume "\<exists>ws. column d ''Volume'' = Some (Ints ws)
        \<and> getitem d ''Volume'' = Inr (Series (Ints ws))"
    then obtain ws where "column d ''Volume'' = Some (Ints ws)"
      "getitem d ''Volume'' = Inr (Series (Ints ws))" by blast
    then show ?thesis by (simp add: m and_then_def int_sum_def)
  next
    assume "\<exists>xs. column d ''Volume'' = Some (Floats xs)
        \<and> getitem d ''Volume'' = Inr (Series (Floats xs)) \<and> xs = map Finite (finite_values xs)"
    then obtain xs where v: "column d ''Volume'' = Some (Floats xs)"
      "getitem d ''Volume'' = Inr (Series (Floats xs))" "xs = map Finite (finite_values xs)"
      by blast
    have "map (\<lambda>x. if x = NaN then Finite 0 else x) xs = xs"
      using v(3) by (rule nan_to_zero_finite)
    then show ?thesis using v(1,2)
      by (cases "np_sum xs") (simp_all add: m and_then_def int_sum_def)
  qed
qed

lemma thirds_arithmetic:
  "rnd (10 - 3) = Finite 7"
  "fmul (fquot (Finite 7) (Finite 3)) (Finite 100) = Finite (8209686820727467 / 35184372088832)"
  "left_sum [Finite (5 / 2), Finite 4] = Finite (13 / 2)"
  using rnd_7
  by (simp_all only: fquot.simps fmul.simps rnd_7_3 rnd_700_3 left_sum_def fold_simps
      prod.case binary64.case rnd_5_2 rnd_13_2 o_apply id_apply) simp

lemma thirds_volume:
  "sint (sum_list [4611686018427387904, 4611686018427387904 :: 64 word]) = - 9223372036854775808"
  "trunc (13 / 2) = 6"
  by code_simp+

lemma thirds_extremes: "Max (set [4, 11 :: real]) = 11" "Min (set [2, 8 :: real]) = 2"
  by simp_all

theorem calculate_metrics_canonical_witness:
  "canonical thirds \<and> len thirds = 2 \<and> col thirds ''Close'' = [3, 10]
   \<and> calculate_metrics left_sum thirds =
       Inr (Finite 10, Finite 7, Finite (8209686820727467 / 35184372088832),
            Finite 11, Finite 2, - 9223372036854775808)
   \<and> canonical thirds_float_volume
   \<and> calculate_metrics left_sum thirds_float_volume =
       Inr (Finite 10, Finite 7, Finite (8209686820727467 / 35184372088832),
            Finite 11, Finite 2, 6)"
proof -
  have c: "canonical thirds"
    by (simp add: canonical_def thirds_def ohlcv_def len_def finite_values_def)
  have l: "1 \<le> len thirds" "len thirds = 2" by (simp_all add: thirds_def len_def)
  have cl: "col thirds ''Close'' = [3, 10]" "col thirds ''High'' = [4, 11]"
    "col thirds ''Low'' = [2, 8]"
    by (simp_all add: thirds_def col_def column_def finite_values_def)
  have h: "3 = col thirds ''Close'' ! 0" "10 = col thirds ''Close'' ! (len thirds - 1)"
    "(3 :: real) \<noteq> 0"
    by (simp_all add: cl l(2))
  have v: "column thirds ''Volume'' = Some (Ints [4611686018427387904, 4611686018427387904])"
    by (simp add: thirds_def column_def)
  have c': "canonical thirds_float_volume"
    by (simp add: canonical_def thirds_float_volume_def ohlcv_def len_def finite_values_def)
  have l': "1 \<le> len thirds_float_volume" "len thirds_float_volume = 2"
    by (simp_all add: thirds_float_volume_def len_def)
  have cl': "col thirds_float_volume ''Close'' = [3, 10]"
    "col thirds_float_volume ''High'' = [4, 11]" "col thirds_float_volume ''Low'' = [2, 8]"
    by (simp_all add: thirds_float_volume_def col_def column_def finite_values_def)
  have h': "3 = col thirds_float_volume ''Close'' ! 0"
    "10 = col thirds_float_volume ''Close'' ! (len thirds_float_volume - 1)"
    by (simp_all add: cl' l'(2))
  have v': "column thirds_float_volume ''Volume'' = Some (Floats [Finite (5 / 2), Finite 4])"
    by (simp add: thirds_float_volume_def column_def)
  note t = calculate_metrics_canonical [OF c l(1) h, of left_sum]
  note t' = calculate_metrics_canonical [OF c' l'(1) h' h(3), of left_sum]
  have a: "calculate_metrics left_sum thirds =
       Inr (Finite 10, Finite 7, Finite (8209686820727467 / 35184372088832),
            Finite 11, Finite 2, - 9223372036854775808)"
    using t [THEN conjunct2, THEN conjunct1, rule_format, OF v]
    unfolding cl thirds_arithmetic thirds_volume thirds_extremes .
  have b: "calculate_metrics left_sum thirds_float_volume =
       Inr (Finite 10, Finite 7, Finite (8209686820727467 / 35184372088832),
            Finite 11, Finite 2, 6)"
    using t' [THEN conjunct2, THEN conjunct2, rule_format, OF v']
    unfolding cl' thirds_arithmetic thirds_volume thirds_extremes binary64.case .
  show ?thesis using c c' l(2) cl(1) a b by (intro conjI)
qed

section \<open>Properties of the Indicator Engine\<close>

lemma map_of_replace:
  "length ds = length cs \<Longrightarrow>
   map_of (zip cs (map (\<lambda>p. if fst p = k then s else snd p) (zip cs ds))) k' =
     (if k' = k \<and> k \<in> set cs then Some s else map_of (zip cs ds) k')"
proof (induction cs arbitrary: ds)
  case Nil
  then show ?case by simp
next
  case (Cons c cs)
  then obtain x xs where "ds = x # xs" by (cases ds) auto
  with Cons show ?case by auto
qed

lemma map_of_append_new:
  "length ds = length cs \<Longrightarrow> k \<notin> set cs \<Longrightarrow>
   map_of (zip (cs @ [k]) (ds @ [s])) k' = (if k' = k then Some s else map_of (zip cs ds) k')"
proof (induction cs arbitrary: ds)
  case Nil
  then show ?case by simp
next
  case (Cons c cs)
  then obtain x xs where "ds = x # xs" by (cases ds) auto
  with Cons show ?case by auto
qed

lemma setitem_well_formed:
  assumes "well_formed d"
  shows "well_formed (setitem d k s)"
    and "map_of (zip (columns (setitem d k s)) (data (setitem d k s))) k' =
           (if k' = k then Some s else map_of (zip (columns d) (data d)) k')"
    and "len (setitem d k s) = len d"
proof -
  from assms have dist: "distinct (columns d)" and l: "length (data d) = length (columns d)"
    by (auto simp: well_formed_def)
  show "well_formed (setitem d k s)"
    using dist l by (auto simp: well_formed_def setitem_def)
  show "len (setitem d k s) = len d"
    by (simp add: setitem_def len_def)
  show "map_of (zip (columns (setitem d k s)) (data (setitem d k s))) k' =
           (if k' = k then Some s else map_of (zip (columns d) (data d)) k')"
  proof (cases "k \<in> set (columns d)")
    case True
    then show ?thesis
      using map_of_replace [OF l, of k s k'] by (simp add: setitem_def)
  next
    case False
    then show ?thesis
      using map_of_append_new [OF l False, of s k'] by (simp add: setitem_def)
  qed
qed

lemma getitem_well_formed:
  assumes "well_formed d" and "map_of (zip (columns d) (data d)) k = Some s"
  shows "getitem d k = Inr (Series s)"
proof -
  from assms(2) have k: "k \<in> set (columns d)"
    by (meson map_of_SomeD set_zip_leftD)
  from assms(1) have "distinct (columns d)" "length (data d) = length (columns d)"
    by (auto simp: well_formed_def)
  from getitem_zip [OF this k] assms(2) show ?thesis
    by (auto simp: getitem_def)
qed

lemma sum_list_window:
  fixes xs :: "real list"
  assumes "j + w \<le> length xs"
  shows "sum_list (take w (drop j xs)) = (\<Sum>k = j..<j + w. xs ! k)"
proof -
  have l: "length (take w (drop j xs)) = w" using assms by simp
  have "sum_list (take w (drop j xs)) = (\<Sum>k = 0..<w. take w (drop j xs) ! k)"
    using sum_list_sum_nth [of "take w (drop j xs)"] by (simp only: l)
  also have "\<dots> = (\<Sum>k = 0..<w. xs ! (k + j))"
    using assms by (intro sum.cong) (auto simp: add.commute)
  also have "\<dots> = (\<Sum>k = j..<j + w. xs ! k)"
    using sum.shift_bounds_nat_ivl [of "\<lambda>k. xs ! k" 0 j w] by (simp add: add.commute)
  finally show ?thesis .
qed

lemma sma_indicator_nth:
  assumes "i < length rs"
  shows "sma_indicator (map Finite rs) 20 ! i =
           (if i < 19 then NaN else Finite ((\<Sum>k = i - 19..i. rs ! k) / 20))"
proof (cases "i < 19")
  case True
  with assms show ?thesis by (simp add: sma_indicator_def)
next
  case False
  let ?w = "take 20 (drop (i - 19) rs)"
  have w: "take 20 (drop (i - 19) (map Finite rs)) = map Finite ?w"
    by (simp add: take_map drop_map)
  have l: "length ?w = 20" using False assms by simp
  then have ne: "?w \<noteq> []" by auto
  have le: "i - 19 + 20 \<le> length rs" using False assms by simp
  have "sum_list ?w = (\<Sum>k = i - 19..<i - 19 + 20. rs ! k)"
    using le by (rule sum_list_window)
  also have "{i - 19..<i - 19 + 20} = {i - 19..i}" using False by auto
  finally have "mean (map Finite ?w) = Finite ((\<Sum>k = i - 19..i. rs ! k) / 20)"
    using ne l by (simp add: mean_def)
  with False assms w show ?thesis by (simp add: sma_indicator_def)
qed

lemma canonical_well_formed: "canonical d \<Longrightarrow> well_formed d"
  by (simp add: canonical_def well_formed_def)

text \<open>
  Claim C7.  On a canonical table \<^verbatim>\<open>add_technical_indicators\<close> succeeds, and its \<^verbatim>\<open>SMA_20\<close>
  column has one entry per row: entry \<open>i\<close> is undefined (NaN) for \<open>i < 19\<close> and is the
  arithmetic mean of the closes \<open>i - 19\<close> to \<open>i\<close> for \<open>i \<ge> 19\<close>.
\<close>

theorem sma_20_column:
  assumes "canonical d" and "i < len d"
  shows "\<exists>d' sma. add_technical_indicators ema d = Inr d'
           \<and> getitem d' ''SMA_20'' = Inr (Series (Floats sma))
           \<and> length sma = len d
           \<and> sma ! i = (if i < 19 then NaN
                        else Finite ((\<Sum>k = i - 19..i. col d ''Close'' ! k) / 20))"
proof -
  let ?close = "map Finite (col d ''Close'')"
  have close: "getitem d ''Close'' = Inr (Series (Floats ?close))"
      "length (col d ''Close'') = len d"
    using canonical_price [OF assms(1), of "''Close''"] by simp_all
  let ?sma = "sma_indicator ?close 20"
  let ?d1 = "setitem d ''SMA_20'' (Floats ?sma)"
  let ?d2 = "setitem ?d1 ''EMA_20'' (Floats (ema ?close 20))"
  have wf: "well_formed d" using assms(1) by (rule canonical_well_formed)
  have wf1: "well_formed ?d1" using wf by (rule setitem_well_formed)
  have wf2: "well_formed ?d2" using wf1 by (rule setitem_well_formed)
  have "map_of (zip (columns ?d2) (data ?d2)) ''SMA_20'' = Some (Floats ?sma)"
    by (simp add: setitem_well_formed(2) [OF wf1] setitem_well_formed(2) [OF wf])
  then have "getitem ?d2 ''SMA_20'' = Inr (Series (Floats ?sma))"
    using wf2 by (rule getitem_well_formed [rotated])
  moreover have "add_technical_indicators ema d = Inr ?d2"
    by (simp add: add_technical_indicators_def and_then_def close(1))
  moreover have "length ?sma = len d" by (simp add: sma_indicator_def close(2))
  moreover have "?sma ! i = (if i < 19 then NaN
                        else Finite ((\<Sum>k = i - 19..i. col d ''Close'' ! k) / 20))"
    using sma_indicator_nth [of i "col d ''Close''"] close(2) assms(2) by simp
  ultimately show ?thesis by blast
qed

theorem sma_20_column_witness:
  "canonical twenty_rows \<and> len twenty_rows = 20
   \<and> (\<exists>d' sma. add_technical_indicators no_ema twenty_rows = Inr d'
        \<and> getitem d' ''SMA_20'' = Inr (Series (Floats sma))
        \<and> length sma = 20 \<and> sma ! 0 = NaN \<and> sma ! 18 = NaN \<and> sma ! 19 = Finite (21 / 2))"
proof -
  have c: "canonical twenty_rows"
    by (simp add: canonical_def twenty_rows_def ohlcv_def len_def finite_values_def)
  have l: "len twenty_rows = 20" by (simp add: twenty_rows_def len_def)
  have cl: "col twenty_rows ''Close'' = [1, 2, 3, 4, 5, 6, 7, 8, 9, 10, 11, 12, 13, 14, 15, 16, 17, 18, 19, 20]"
    by (simp add: twenty_rows_def col_def column_def finite_values_def)
  have s: "(\<Sum>k = 0..19. col twenty_rows ''Close'' ! k) = 210"
    unfolding cl by (simp add: atLeastAtMost_upt upt_rec)
  from l have i0: "0 < len twenty_rows" and i18: "18 < len twenty_rows" and i19: "19 < len twenty_rows"
    by simp_all
  obtain d' sma where r: "add_technical_indicators no_ema twenty_rows = Inr d'"
      "getitem d' ''SMA_20'' = Inr (Series (Floats sma))" "length sma = len twenty_rows"
      "sma ! 19 = (if (19::nat) < 19 then NaN
                   else Finite ((\<Sum>k = 19 - 19..19. col twenty_rows ''Close'' ! k) / 20))"
    using sma_20_column [OF c i19, of no_ema] by blast
  from sma_20_column [OF c i0, of no_ema] r have r0: "sma ! 0 = NaN" by auto
  from sma_20_column [OF c i18, of no_ema] r have r18: "sma ! 18 = NaN" by auto
  from r(4) s have "sma ! 19 = Finite (21 / 2)" by simp
  with c l r r0 r18 show ?thesis by auto
qed

section \<open>Running the Normalizer again\<close>

lemma col_map_loop_lookup:
  "col_map_loop cols m c =
     (if c \<in> set cols \<and> canonical_name c \<noteq> c then Some (canonical_name c)
      else if c \<in> set cols \<and> (sublist ''Open'' c \<or> sublist ''High'' c \<or> sublist ''Low'' c
              \<or> sublist ''Close'' c \<or> sublist ''Volume'' c) then Some c
      else m c)"
proof (induction cols arbitrary: m)
  case Nil
  then show ?case by simp
next
  case (Cons a cols)
  show ?case
    by (simp add: Cons.IH) (auto simp: canonical_name_def)
qed

lemma col_map_loop_empty:
  "c \<in> set cols \<Longrightarrow>
   (case col_map_loop cols Map.empty c of Some v \<Rightarrow> v | None \<Rightarrow> c) = canonical_name c"
  by (auto simp: col_map_loop_lookup canonical_name_def)

lemma normalize_columns:
  "normalize_column_names d = d\<lparr>columns := map canonical_name (columns d)\<rparr>"
  by (simp add: normalize_column_names_def rename_def col_map_loop_empty cong: map_cong)

lemma canonical_name_fixed:
  "canonical_name ''Open'' = ''Open''" "canonical_name ''High'' = ''High''"
  "canonical_name ''Low'' = ''Low''" "canonical_name ''Close'' = ''Close''"
  "canonical_name ''Volume'' = ''Volume''" "canonical_name ''Datetime'' = ''Datetime''"
  "canonical_name ''SMA_20'' = ''SMA_20''" "canonical_name ''EMA_20'' = ''EMA_20''"
  by (simp_all add: canonical_name_def sublist_code)

lemma canonical_name_idem: "canonical_name (canonical_name c) = canonical_name c"
  using canonical_name_fixed by (auto simp: canonical_name_def)

lemma normalize_idem:
  "normalize_column_names (normalize_column_names d) = normalize_column_names d"
  by (simp add: normalize_columns canonical_name_idem)

lemma canonical_labels:
  assumes "canonical d" and "c \<in> set (columns d)"
  shows "c \<in> set (''Datetime'' # ohlcv) \<or> c = ''SMA_20'' \<or> c = ''EMA_20''"
proof -
  from assms have l: "length (data d) = length (columns d)"
    and all: "list_all (canonical_series (len d)) (zip (columns d) (data d))"
    by (auto simp: canonical_def)
  from assms(2) l obtain s where "(c, s) \<in> set (zip (columns d) (data d))"
    by (metis in_set_impl_in_set_zip1)
  with all have "canonical_series (len d) (c, s)" by (auto simp: list_all_iff)
  then show ?thesis by (cases s) (auto simp: ohlcv_def)
qed

lemma normalize_canonical:
  assumes "canonical d"
  shows "normalize_column_names d = d"
proof -
  have "map canonical_name (columns d) = columns d"
    using canonical_labels [OF assms] canonical_name_fixed
    by (intro map_idI) (auto simp: ohlcv_def)
  then show ?thesis by (simp add: normalize_columns)
qed

lemma process_data_grows:
  "process_data r = Inr d1 \<Longrightarrow> length (columns d1) = Suc (ncols (columns r))"
  by (auto simp: process_data_def reset_index_def Let_def rename_def flatten_def and_then_def
      tz_localize_UTC_def tz_convert_def
      split: row_index.splits col_index.splits if_splits list.splits sum.splits option.splits)

lemma normalizer_not_identity: "normalizer (as_raw t) \<noteq> Inr t"
proof
  assume a: "normalizer (as_raw t) = Inr t"
  then obtain d1 where p: "process_data (as_raw t) = Inr d1" and n: "normalize_column_names d1 = t"
    by (auto simp: normalizer_def split: sum.splits)
  from process_data_grows [OF p] have "length (columns d1) = Suc (length (columns t))"
    by (simp add: as_raw_def)
  moreover from n have "length (columns t) = length (columns d1)"
    by (auto simp: normalize_columns)
  ultimately show False by simp
qed

lemma process_data_positional:
  "index t = RangeIndex n \<Longrightarrow> process_data (as_raw t) = Inl AttributeError"
  by (simp add: process_data_def as_raw_def)

text \<open>
  Claim C4, as stated, fails: on a canonical table, whose index is the positional one that
  \<^verbatim>\<open>reset_index\<close> left, \<^verbatim>\<open>process_data\<close> raises when it asks the index for its timezone.
\<close>

theorem normalizer_rerun_raises: "canonical three_rows \<and> normalizer (as_raw three_rows) = Inl AttributeError"
  by (simp add: canonical_def three_rows_def ohlcv_def len_def normalizer_def process_data_def
      as_raw_def finite_values_def)

text \<open>
  Claim C4, amended.  \<^verbatim>\<open>normalize_column_names\<close> is idempotent on every table and leaves a
  canonical table as it is.  \<^verbatim>\<open>process_data\<close> is not idempotent: on a table with a positional
  index it raises, and the Normalizer as a whole never returns the table it was given.
\<close>

theorem normalize_idempotent:
  "normalize_column_names (normalize_column_names d) = normalize_column_names d
   \<and> (canonical t \<longrightarrow> normalize_column_names t = t)
   \<and> (index t = RangeIndex n \<longrightarrow> process_data (as_raw t) = Inl AttributeError)
   \<and> normalizer (as_raw t) \<noteq> Inr t"
  using normalize_idem normalize_canonical process_data_positional normalizer_not_identity
  by blast

theorem normalize_idempotent_witness:
  "columns (normalize_column_names xyz_labels) = [''Datetime'', ''Close'', ''Close'', ''Dividends'']
   \<and> normalize_column_names (normalize_column_names xyz_labels) = normalize_column_names xyz_labels
   \<and> canonical three_rows \<and> normalize_column_names three_rows = three_rows
   \<and> index three_rows = RangeIndex 3 \<and> process_data (as_raw three_rows) = Inl AttributeError"
proof -
  have c: "canonical three_rows"
    by (simp add: canonical_def three_rows_def ohlcv_def len_def finite_values_def)
  have i: "index three_rows = RangeIndex 3" by (simp add: three_rows_def)
  have x: "columns (normalize_column_names xyz_labels) = [''Datetime'', ''Close'', ''Close'', ''Dividends'']"
    by (simp add: normalize_column_names_def rename_def xyz_labels_def sublist_code)
  show ?thesis
    using c i x normalize_idempotent [of xyz_labels three_rows 3] by simp
qed

section \<open>Properties of the Normalizer\<close>

lemma rstrip_append_drop:
  "\<forall>y \<in> set ys. P y \<Longrightarrow> rev (dropWhile P (rev (xs @ ys))) = rev (dropWhile P (rev xs))"
  by (simp add: dropWhile_append)

lemma rstrip_append_keep:
  "\<not> (\<forall>y \<in> set ys. P y) \<Longrightarrow>
   rev (dropWhile P (rev (xs @ ys))) = xs @ rev (dropWhile P (rev ys))"
  by (auto simp: dropWhile_append)

lemma rstrip_prefix: "prefix (rev (dropWhile P (rev xs))) xs"
proof -
  have "rev xs = takeWhile P (rev xs) @ dropWhile P (rev xs)" by simp
  then have "xs = rev (dropWhile P (rev xs)) @ rev (takeWhile P (rev xs))"
    by (metis rev_append rev_rev_ident)
  then show ?thesis by (metis prefixI)
qed

lemma strip_sublist: "sublist (strip s) s"
proof -
  have "sublist (strip s) (dropWhile is_space s)"
    unfolding strip_def by (rule prefix_imp_sublist) (rule rstrip_prefix)
  moreover have "sublist (dropWhile is_space s) s"
    by (rule suffix_imp_sublist) (rule suffix_dropWhile)
  ultimately show ?thesis by (rule sublist_order.order_trans)
qed

lemma ohlcv_cases:
  "f \<in> set ohlcv \<Longrightarrow> f = ''Open'' \<or> f = ''High'' \<or> f = ''Low'' \<or> f = ''Close'' \<or> f = ''Volume''"
  by (auto simp: ohlcv_def)

lemma flat_label:
  assumes "f \<in> set ohlcv"
  shows "strip (join '' '' [f, symbol]) = f
       \<or> (\<exists>s'. strip (join '' '' [f, symbol]) = f @ CHR '' '' # s' \<and> prefix s' symbol)"
proof -
  have j: "join '' '' [f, symbol] = f @ CHR '' '' # symbol" by simp
  have d: "dropWhile is_space (f @ CHR '' '' # symbol) = f @ CHR '' '' # symbol"
    using ohlcv_cases [OF assms] by (auto simp: is_space_def)
  have r: "rev (dropWhile is_space (rev f)) = f"
    using ohlcv_cases [OF assms] by (auto simp: is_space_def)
  have sp: "is_space CHR '' ''" by (simp add: is_space_def)
  show ?thesis
  proof (cases "\<forall>y \<in> set symbol. is_space y")
    case True
    with sp have "\<forall>y \<in> set (CHR '' '' # symbol). is_space y" by simp
    then have "rev (dropWhile is_space (rev (f @ CHR '' '' # symbol))) =
        rev (dropWhile is_space (rev f))"
      by (rule rstrip_append_drop)
    then have "strip (join '' '' [f, symbol]) = f"
      unfolding strip_def j d using r by simp
    then show ?thesis by simp
  next
    case False
    then have "\<not> (\<forall>y \<in> set (CHR '' '' # symbol). is_space y)" by simp
    then have "rev (dropWhile is_space (rev (f @ CHR '' '' # symbol))) =
        f @ rev (dropWhile is_space (rev (CHR '' '' # symbol)))"
      by (rule rstrip_append_keep)
    also have "rev (dropWhile is_space (rev (CHR '' '' # symbol))) =
        [CHR '' ''] @ rev (dropWhile is_space (rev symbol))"
      using rstrip_append_keep [OF False, of "[CHR '' '']"] by simp
    finally have "strip (join '' '' [f, symbol]) =
        f @ CHR '' '' # rev (dropWhile is_space (rev symbol))"
      unfolding strip_def j d by simp
    then show ?thesis using rstrip_prefix by blast
  qed
qed

lemma sublist_across:
  assumes "c \<notin> set g"
  shows "sublist g (ys @ c # zs) \<longleftrightarrow> sublist g ys \<or> sublist g zs"
proof
  assume "sublist g (ys @ c # zs)"
  then consider "sublist g ys" | "sublist g (c # zs)"
    | xs1 xs2 where "g = xs1 @ xs2" "suffix xs1 ys" "prefix xs2 (c # zs)"
    by (auto simp: sublist_append)
  then show "sublist g ys \<or> sublist g zs"
  proof cases
    case 1
    then show ?thesis by simp
  next
    case 2
    then have "prefix g (c # zs) \<or> sublist g zs" by (simp add: sublist_Cons_right)
    moreover have "prefix g (c # zs) \<Longrightarrow> g = []"
      using assms by (cases g) auto
    ultimately show ?thesis by auto
  next
    case 3
    have "xs2 = []" using 3(1,3) assms by (cases xs2) auto
    with 3 have "suffix g ys" by simp
    then show ?thesis by (simp add: suffix_imp_sublist)
  qed
next
  assume "sublist g ys \<or> sublist g zs"
  then show "sublist g (ys @ c # zs)"
    by (auto simp: sublist_append sublist_Cons_right)
qed

lemma sublist_names:
  "g \<in> set ohlcv \<Longrightarrow> f \<in> set ohlcv \<Longrightarrow> sublist g f \<longleftrightarrow> g = f"
  by (auto simp: ohlcv_def sublist_code)

lemma label_names:
  assumes "f \<in> set ohlcv" and "g \<in> set ohlcv" and "\<forall>h \<in> set ohlcv. \<not> sublist h symbol"
  shows "sublist g (strip (join '' '' [f, symbol])) \<longleftrightarrow> g = f"
proof -
  have sp: "CHR '' '' \<notin> set g" using ohlcv_cases [OF assms(2)] by auto
  from flat_label [OF assms(1), of symbol] show ?thesis
  proof
    assume "strip (join '' '' [f, symbol]) = f"
    then show ?thesis using sublist_names [OF assms(2,1)] by simp
  next
    assume "\<exists>s'. strip (join '' '' [f, symbol]) = f @ CHR '' '' # s' \<and> prefix s' symbol"
    then obtain s' where l: "strip (join '' '' [f, symbol]) = f @ CHR '' '' # s'"
      and p: "prefix s' symbol" by blast
    have "\<not> sublist g s'"
    proof
      assume "sublist g s'"
      with p have "sublist g symbol"
        by (meson prefix_imp_sublist sublist_order.order_trans)
      with assms(2,3) show False by blast
    qed
    then show ?thesis
      unfolding l using sublist_across [OF sp, of f s'] sublist_names [OF assms(2,1)] by simp
  qed
qed

lemma canonical_name_label:
  assumes "f \<in> set ohlcv" and "\<forall>h \<in> set ohlcv. \<not> sublist h symbol"
  shows "canonical_name (strip (join '' '' [f, symbol])) = f"
proof -
  have "\<And>g. g \<in> set ohlcv \<Longrightarrow> sublist g (strip (join '' '' [f, symbol])) \<longleftrightarrow> g = f"
    using label_names [OF assms(1) _ assms(2)] by blast
  then have "sublist ''Open'' (strip (join '' '' [f, symbol])) \<longleftrightarrow> ''Open'' = f"
    "sublist ''High'' (strip (join '' '' [f, symbol])) \<longleftrightarrow> ''High'' = f"
    "sublist ''Low'' (strip (join '' '' [f, symbol])) \<longleftrightarrow> ''Low'' = f"
    "sublist ''Close'' (strip (join '' '' [f, symbol])) \<longleftrightarrow> ''Close'' = f"
    "sublist ''Volume'' (strip (join '' '' [f, symbol])) \<longleftrightarrow> ''Volume'' = f"
    by (simp_all add: ohlcv_def)
  then show ?thesis
    using ohlcv_cases [OF assms(1)] unfolding canonical_name_def by auto
qed

lemma label_not_reserved:
  assumes "f \<in> set ohlcv"
  shows "strip (join '' '' [f, symbol]) \<notin> {''Date'', ''Datetime''}"
  using flat_label [OF assms, of symbol] ohlcv_cases [OF assms] by auto

text \<open>A field that contains none of the five names keeps its flattened label.\<close>

lemma other_label_names:
  assumes "\<forall>h \<in> set ohlcv. \<not> sublist h f" and "\<forall>h \<in> set ohlcv. \<not> sublist h symbol"
    and "g \<in> set ohlcv"
  shows "\<not> sublist g (strip (join '' '' [f, symbol]))"
proof
  assume "sublist g (strip (join '' '' [f, symbol]))"
  then have "sublist g (join '' '' [f, symbol])"
    using strip_sublist by (rule sublist_order.order_trans)
  then have s: "sublist g (f @ CHR '' '' # symbol)" by simp
  have sp: "CHR '' '' \<notin> set g" using ohlcv_cases [OF assms(3)] by auto
  from s have "sublist g f \<or> sublist g symbol" by (simp only: sublist_across [OF sp])
  with assms show False by blast
qed

lemma canonical_name_other:
  assumes "\<forall>h \<in> set ohlcv. \<not> sublist h f" and "\<forall>h \<in> set ohlcv. \<not> sublist h symbol"
  shows "canonical_name (strip (join '' '' [f, symbol])) = strip (join '' '' [f, symbol])"
proof -
  have "\<And>g. g \<in> set ohlcv \<Longrightarrow> \<not> sublist g (strip (join '' '' [f, symbol]))"
    using other_label_names [OF assms] by blast
  then have "\<not> sublist ''Open'' (strip (join '' '' [f, symbol]))"
    "\<not> sublist ''High'' (strip (join '' '' [f, symbol]))"
    "\<not> sublist ''Low'' (strip (join '' '' [f, symbol]))"
    "\<not> sublist ''Close'' (strip (join '' '' [f, symbol]))"
    "\<not> sublist ''Volume'' (strip (join '' '' [f, symbol]))"
    by (simp_all add: ohlcv_def)
  then show ?thesis unfolding canonical_name_def by simp
qed

lemma rename_first:
  assumes "k \<notin> set ls"
  shows "rename [k \<mapsto> v] \<lparr>index = i, columns = k # ls, data = ds\<rparr> =
           \<lparr>index = i, columns = v # ls, data = ds\<rparr>"
proof -
  have "map (\<lambda>c. case [k \<mapsto> v] c of Some w \<Rightarrow> w | None \<Rightarrow> c) ls = ls"
    using assms by (induction ls) auto
  then show ?thesis by (simp add: rename_def)
qed

lemma process_data_labels:
  assumes "index raw = DatetimeIndex nm tz ts"
    and "(case columns raw of MultiIndex tups \<Rightarrow> flatten tups | Index ls \<Rightarrow> ls) = labels"
    and "index_label nm labels \<notin> set labels"
    and "''Date'' \<notin> set labels" and "''Datetime'' \<notin> set labels"
  shows "process_data raw =
     Inr \<lparr>index = RangeIndex (length ts), columns = ''Datetime'' # labels,
          data = Datetimes (Some ''US/Eastern'') ts # data raw\<rparr>"
proof -
  let ?name = "index_label nm labels"
  let ?d0 = "\<lparr>index = RangeIndex (length ts), columns = ?name # labels,
          data = Datetimes (Some ''US/Eastern'') ts # data raw\<rparr>"
  let ?d1 = "\<lparr>index = RangeIndex (length ts), columns = ''Datetime'' # labels,
          data = Datetimes (Some ''US/Eastern'') ts # data raw\<rparr>"
  have z: "and_then (if tz = None then tz_localize_UTC (tz, ts) else Inr (tz, ts))
             (tz_convert ''US/Eastern'') = Inr (Some ''US/Eastern'', ts)"
    by (cases tz) (simp_all add: and_then_def tz_localize_UTC_def tz_convert_def)
  have r: "reset_index nm (Some ''US/Eastern'') ts labels (data raw) = Inr ?d0"
    using assms(3) by (simp add: reset_index_def)
  have p: "process_data raw =
      (if ''Date'' \<in> set (columns ?d0) then Inr (rename [''Date'' \<mapsto> ''Datetime''] ?d0)
       else if ''Datetime'' \<notin> set (columns ?d0)
       then Inr (rename [?name \<mapsto> ''Datetime''] ?d0)
       else Inr ?d0)"
  proof (cases tz)
    case None
    then show ?thesis
      using assms(1,2) r
      by (simp add: process_data_def Let_def and_then_def tz_localize_UTC_def tz_convert_def)
  next
    case (Some zone)
    then show ?thesis
      using assms(1,2) r
      by (simp add: process_data_def Let_def and_then_def tz_convert_def)
  qed
  show ?thesis
  proof (cases "?name = ''Date''")
    case True
    then show ?thesis using rename_first [OF assms(3)] by (simp add: p)
  next
    case False
    show ?thesis
    proof (cases "?name = ''Datetime''")
      case True
      then show ?thesis using assms(4) by (simp add: p)
    next
      case d: False
      then show ?thesis using False assms(4,5) rename_first [OF assms(3)] by (simp add: p)
    qed
  qed
qed

lemma count_list_map:
  "(\<And>x. x \<in> set xs \<Longrightarrow> h x = g \<longleftrightarrow> x = g) \<Longrightarrow> count_list (map h xs) g = count_list xs g"
  by (induction xs) auto

text \<open>
  Claim C1, as stated, fails: with the field \<^verbatim>\<open>Adj Close\<close> beside the five price and volume
  fields, all for the one symbol XYZ, the label \<^verbatim>\<open>Adj Close XYZ\<close> contains \<^verbatim>\<open>Close\<close>, and the
  name \<^verbatim>\<open>Close\<close> appears twice.
\<close>

theorem normalizer_adj_close: "map_sum id columns (normalizer adj_close_raw) =
    Inr [''Datetime'', ''Close'', ''Close'', ''High'', ''Low'', ''Open'', ''Volume'']"
  by (simp add: adj_close_raw_def normalizer_def process_data_def flatten_def strip_def
      is_space_def reset_index_def index_label_def tz_localize_UTC_def tz_convert_def
      and_then_def rename_def normalize_column_names_def sublist_code)

text \<open>
  Claim C1, amended.  Let the columns of a raw table be the pairs (field, symbol) for one
  symbol, and let its index be a timestamp index.  Let each of the five names Open, High,
  Low, Close, Volume be a field exactly once; let every other field contain none of the
  five names and flatten to a label other than \<^verbatim>\<open>Date\<close> and \<^verbatim>\<open>Datetime\<close>; let the symbol
  contain none of the five names; and let the label that \<^verbatim>\<open>reset_index\<close> gives the index
  be none of the flattened labels.  Then the Normalizer succeeds; the labels of its result
  are flat strings, \<^verbatim>\<open>Datetime\<close> followed, in the order of the fields, by the name of each of
  the five fields and the flattened label of each other field, so \<^verbatim>\<open>Datetime\<close> and each of
  the five names appear exactly once; and the \<^verbatim>\<open>Datetime\<close> column holds the timestamps of the
  index in the zone US/Eastern.
\<close>

theorem normalizer_two_level:
  assumes "columns raw = MultiIndex (map (\<lambda>f. [f, symbol]) flds)"
    and "index raw = DatetimeIndex nm tz ts"
    and "\<forall>g \<in> set ohlcv. count_list flds g = 1"
    and "\<forall>f \<in> set flds. f \<notin> set ohlcv \<longrightarrow>
           (\<forall>h \<in> set ohlcv. \<not> sublist h f)
           \<and> strip (join '' '' [f, symbol]) \<notin> {''Date'', ''Datetime''}"
    and "\<forall>h \<in> set ohlcv. \<not> sublist h symbol"
    and "index_label nm (flatten (map (\<lambda>f. [f, symbol]) flds))
           \<notin> set (flatten (map (\<lambda>f. [f, symbol]) flds))"
  shows "\<exists>t. normalizer raw = Inr t
           \<and> columns t = ''Datetime'' #
               map (\<lambda>f. if f \<in> set ohlcv then f else strip (join '' '' [f, symbol])) flds
           \<and> index t = RangeIndex (length ts)
           \<and> data t = Datetimes (Some ''US/Eastern'') ts # data raw
           \<and> (\<forall>g \<in> set (''Datetime'' # ohlcv). count_list (columns t) g = 1)"
proof -
  let ?label = "\<lambda>f. strip (join '' '' [f, symbol])"
  let ?final = "\<lambda>f. if f \<in> set ohlcv then f else ?label f"
  let ?labels = "flatten (map (\<lambda>f. [f, symbol]) flds)"
  let ?d1 = "\<lparr>index = RangeIndex (length ts), columns = ''Datetime'' # ?labels,
          data = Datetimes (Some ''US/Eastern'') ts # data raw\<rparr>"
  have l: "?labels = map ?label flds"
    by (simp add: flatten_def comp_def)
  have nr: "\<And>f. f \<in> set flds \<Longrightarrow> ?label f \<notin> {''Date'', ''Datetime''}"
  proof -
    fix f assume f: "f \<in> set flds"
    show "?label f \<notin> {''Date'', ''Datetime''}"
    proof (cases "f \<in> set ohlcv")
      case True
      then show ?thesis by (rule label_not_reserved)
    next
      case False
      with f assms(4) show ?thesis by blast
    qed
  qed
  have "\<And>x. x \<in> set ?labels \<Longrightarrow> x \<notin> {''Date'', ''Datetime''}"
  proof -
    fix x assume "x \<in> set ?labels"
    then obtain f where f: "f \<in> set flds" and x: "x = ?label f"
      unfolding l by auto
    from nr [OF f] show "x \<notin> {''Date'', ''Datetime''}" unfolding x .
  qed
  then have res: "''Date'' \<notin> set ?labels" "''Datetime'' \<notin> set ?labels"
    by blast+
  have p: "process_data raw = Inr ?d1"
    using assms(2) _ assms(6) res by (rule process_data_labels) (simp add: assms(1))
  have h: "\<And>f. f \<in> set flds \<Longrightarrow> canonical_name (?label f) = ?final f"
  proof -
    fix f assume f: "f \<in> set flds"
    show "canonical_name (?label f) = ?final f"
    proof (cases "f \<in> set ohlcv")
      case True
      then show ?thesis using canonical_name_label [OF True assms(5)] by simp
    next
      case False
      with f assms(4) have "\<forall>h \<in> set ohlcv. \<not> sublist h f" by blast
      from canonical_name_other [OF this assms(5)] False show ?thesis by simp
    qed
  qed
  have "map (\<lambda>f. canonical_name (?label f)) flds = map ?final flds"
    by (rule map_cong [OF refl]) (rule h)
  then have "map canonical_name ?labels = map ?final flds"
    unfolding l by (simp add: comp_def)
  then have c: "columns (normalize_column_names ?d1) = ''Datetime'' # map ?final flds"
    by (simp add: normalize_columns canonical_name_fixed)
  have fin: "\<And>g f. g \<in> set ohlcv \<Longrightarrow> f \<in> set flds \<Longrightarrow> ?final f = g \<longleftrightarrow> f = g"
  proof -
    fix g f assume g: "g \<in> set ohlcv" and f: "f \<in> set flds"
    show "?final f = g \<longleftrightarrow> f = g"
    proof (cases "f \<in> set ohlcv")
      case True
      then show ?thesis by simp
    next
      case False
      with f assms(4) have "\<forall>h \<in> set ohlcv. \<not> sublist h f" by blast
      from other_label_names [OF this assms(5) g] have "?label f \<noteq> g" by auto
      with False g show ?thesis by auto
    qed
  qed
  have five: "\<And>g. g \<in> set ohlcv \<Longrightarrow> count_list (''Datetime'' # map ?final flds) g = 1"
  proof -
    fix g assume g: "g \<in> set ohlcv"
    have "count_list (map ?final flds) g = count_list flds g"
      by (rule count_list_map) (rule fin [OF g])
    moreover have "g \<noteq> ''Datetime''" using ohlcv_cases [OF g] by auto
    ultimately show "count_list (''Datetime'' # map ?final flds) g = 1"
      using assms(3) g by simp
  qed
  have "\<And>f. f \<in> set flds \<Longrightarrow> ?final f \<noteq> ''Datetime''"
  proof -
    fix f assume f: "f \<in> set flds"
    show "?final f \<noteq> ''Datetime''"
    proof (cases "f \<in> set ohlcv")
      case True
      then show ?thesis using ohlcv_cases [OF True] by auto
    next
      case False
      then show ?thesis using nr [OF f] by simp
    qed
  qed
  then have "\<forall>f \<in> set flds. ?final f \<noteq> ''Datetime''" by blast
  then have "''Datetime'' \<notin> set (map ?final flds)"
    unfolding set_map image_iff by metis
  then have "count_list (''Datetime'' # map ?final flds) ''Datetime'' = 1"
    by (simp add: count_list_0_iff)
  with five have cnt:
    "\<forall>g \<in> set (''Datetime'' # ohlcv). count_list (''Datetime'' # map ?final flds) g = 1"
    by simp
  have "normalizer raw = Inr (normalize_column_names ?d1)"
    by (simp add: normalizer_def p)
  moreover have "index (normalize_column_names ?d1) = RangeIndex (length ts)"
    "data (normalize_column_names ?d1) = Datetimes (Some ''US/Eastern'') ts # data raw"
    by (simp_all add: normalize_columns)
  ultimately show ?thesis using c cnt by auto
qed

theorem normalizer_two_level_witness:
  "columns actions_raw =
     MultiIndex (map (\<lambda>f. [f, ''XYZ''])
       [''Close'', ''Dividends'', ''High'', ''Low'', ''Open'', ''Stock Splits'', ''Volume''])
   \<and> index actions_raw = DatetimeIndex (Some ''Date'') None [0, 86400, 172800]
   \<and> map (count_list [''Close'', ''Dividends'', ''High'', ''Low'', ''Open'', ''Stock Splits'',
         ''Volume'']) ohlcv = [1, 1, 1, 1, 1]
   \<and> \<not> sublist ''Open'' ''XYZ'' \<and> \<not> sublist ''High'' ''XYZ'' \<and> \<not> sublist ''Low'' ''XYZ''
   \<and> \<not> sublist ''Close'' ''XYZ'' \<and> \<not> sublist ''Volume'' ''XYZ''
   \<and> flatten [[''Close'', ''XYZ''], [''Dividends'', ''XYZ''], [''High'', ''XYZ''],
        [''Low'', ''XYZ''], [''Open'', ''XYZ''], [''Stock Splits'', ''XYZ''], [''Volume'', ''XYZ'']] =
       [''Close XYZ'', ''Dividends XYZ'', ''High XYZ'', ''Low XYZ'', ''Open XYZ'',
        ''Stock Splits XYZ'', ''Volume XYZ'']
   \<and> map_sum id columns (normalizer actions_raw) =
       Inr [''Datetime'', ''Close'', ''Dividends XYZ'', ''High'', ''Low'', ''Open'',
            ''Stock Splits XYZ'', ''Volume'']"
proof -
  let ?flds = "[''Close'', ''Dividends'', ''High'', ''Low'', ''Open'', ''Stock Splits'', ''Volume'']"
  have f: "flatten (map (\<lambda>f. [f, ''XYZ'']) ?flds) =
       [''Close XYZ'', ''Dividends XYZ'', ''High XYZ'', ''Low XYZ'', ''Open XYZ'',
        ''Stock Splits XYZ'', ''Volume XYZ'']"
    by (simp add: flatten_def strip_def is_space_def)
  have c: "columns actions_raw = MultiIndex (map (\<lambda>f. [f, ''XYZ'']) ?flds)"
    by (simp add: actions_raw_def)
  have i: "index actions_raw = DatetimeIndex (Some ''Date'') None [0, 86400, 172800]"
    by (simp add: actions_raw_def)
  have k: "\<forall>g \<in> set ohlcv. count_list ?flds g = 1" by (simp add: ohlcv_def)
  have n: "\<forall>h \<in> set ohlcv. \<not> sublist h ''XYZ''" by (simp add: ohlcv_def sublist_code)
  have o: "\<forall>f \<in> set ?flds. f \<notin> set ohlcv \<longrightarrow>
           (\<forall>h \<in> set ohlcv. \<not> sublist h f)
           \<and> strip (join '' '' [f, ''XYZ'']) \<notin> {''Date'', ''Datetime''}"
    by (simp add: ohlcv_def sublist_code strip_def is_space_def)
  have m: "index_label (Some ''Date'') (flatten (map (\<lambda>f. [f, ''XYZ'']) ?flds))
      \<notin> set (flatten (map (\<lambda>f. [f, ''XYZ'']) ?flds))"
    unfolding f by (simp add: index_label_def)
  from normalizer_two_level [OF c i k o n m] obtain t where
    "normalizer actions_raw = Inr t"
    "columns t = ''Datetime'' #
       map (\<lambda>f. if f \<in> set ohlcv then f else strip (join '' '' [f, ''XYZ''])) ?flds"
    by blast
  then have "map_sum id columns (normalizer actions_raw) =
       Inr [''Datetime'', ''Close'', ''Dividends XYZ'', ''High'', ''Low'', ''Open'',
            ''Stock Splits XYZ'', ''Volume'']"
    by (simp add: ohlcv_def strip_def is_space_def)
  moreover have "\<not> sublist ''Open'' ''XYZ''" "\<not> sublist ''High'' ''XYZ''"
    "\<not> sublist ''Low'' ''XYZ''" "\<not> sublist ''Close'' ''XYZ''" "\<not> sublist ''Volume'' ''XYZ''"
    by (simp_all add: sublist_code)
  moreover have "map (count_list ?flds) ohlcv = [1, 1, 1, 1, 1]" by (simp add: ohlcv_def)
  ultimately show ?thesis using c i f by simp
qed

section \<open>The concrete scenario\<close>

lemma flatten_xyz:
  "flatten xyz_columns = [''Close XYZ'', ''Open XYZ'', ''High XYZ'', ''Low XYZ'', ''Volume XYZ'']"
  by (simp add: flatten_def xyz_columns_def strip_def is_space_def)

lemma normalizer_xyz:
  assumes "nm \<notin> Some ` set (flatten xyz_columns)"
  shows "normalizer (xyz_raw nm ts opens highs lows volumes) =
     Inr \<lparr>index = RangeIndex (length ts),
          columns = [''Datetime'', ''Close'', ''Open'', ''High'', ''Low'', ''Volume''],
          data = [Datetimes (Some ''US/Eastern'') ts, Floats xyz_closes, Floats opens,
                  Floats highs, Floats lows, Ints volumes]\<rparr>"
proof -
  have i: "index_label nm (flatten xyz_columns) \<notin> set (flatten xyz_columns)"
    using assms unfolding flatten_xyz by (cases nm) (auto simp: index_label_def)
  have "process_data (xyz_raw nm ts opens highs lows volumes) =
     Inr \<lparr>index = RangeIndex (length ts), columns = ''Datetime'' # flatten xyz_columns,
          data = Datetimes (Some ''US/Eastern'') ts #
                 data (xyz_raw nm ts opens highs lows volumes)\<rparr>"
    by (rule process_data_labels [OF _ _ i]) (simp_all add: xyz_raw_def flatten_xyz)
  then have p: "process_data (xyz_raw nm ts opens highs lows volumes) =
     Inr \<lparr>index = RangeIndex (length ts),
          columns = [''Datetime'', ''Close XYZ'', ''Open XYZ'', ''High XYZ'', ''Low XYZ'', ''Volume XYZ''],
          data = [Datetimes (Some ''US/Eastern'') ts, Floats xyz_closes, Floats opens,
                  Floats highs, Floats lows, Ints volumes]\<rparr>"
    by (simp add: flatten_xyz xyz_raw_def)
  show ?thesis
    by (simp add: normalizer_def p normalize_column_names_def rename_def sublist_code)
qed

text \<open>
  Claim C5.  For the raw table with ten rows, a naive timestamp index, the two-level columns
  (Close, XYZ), (Open, XYZ), (High, XYZ), (Low, XYZ), (Volume, XYZ) and the closes 100 to 109,
  the Normalizer succeeds.  Converting the naive index as it is would raise; labelled UTC
  first, it converts, and the \<^verbatim>\<open>Datetime\<close> column holds the readings of the index as instants
  in the zone US/Eastern.  \<^verbatim>\<open>calculate_metrics\<close> returns the last close 109, the change 9 and
  the percent change 9, the results of the binary64 operations.  The index name (none of
  the flattened labels), the timestamps and the other four columns are arbitrary.
\<close>

theorem xyz_scenario:
  assumes "nm \<notin> Some ` set (flatten xyz_columns)"
    and "length ts = 10" and "length opens = 10" and "length highs = 10"
    and "length lows = 10" and "length volumes = 10"
  shows "\<exists>t high low volume.
           normalizer (xyz_raw nm ts opens highs lows volumes) = Inr t
         \<and> len t = 10
         \<and> tz_convert ''US/Eastern'' (None, ts) = Inl TypeError
         \<and> tz_localize_UTC (None, ts) = Inr (Some ''UTC'', ts)
         \<and> tz_convert ''US/Eastern'' (Some ''UTC'', ts) = Inr (Some ''US/Eastern'', ts)
         \<and> getitem t ''Datetime'' = Inr (Series (Datetimes (Some ''US/Eastern'') ts))
         \<and> calculate_metrics np_sum t = Inr (Finite 109, Finite 9, Finite 9, high, low, volume)"
proof -
  let ?t = "\<lparr>index = RangeIndex (length ts),
          columns = [''Datetime'', ''Close'', ''Open'', ''High'', ''Low'', ''Volume''],
          data = [Datetimes (Some ''US/Eastern'') ts, Floats xyz_closes, Floats opens,
                  Floats highs, Floats lows, Ints volumes]\<rparr>"
  have n: "normalizer (xyz_raw nm ts opens highs lows volumes) = Inr ?t"
    using assms(1) by (rule normalizer_xyz)
  have "len ?t = 10" using assms(2) by (simp add: len_def)
  moreover have "getitem ?t ''Datetime'' = Inr (Series (Datetimes (Some ''US/Eastern'') ts))"
    by (simp add: getitem_def)
  moreover have c: "getitem ?t ''Close'' = Inr (Series (Floats xyz_closes))"
    "getitem ?t ''High'' = Inr (Series (Floats highs))"
    "getitem ?t ''Low'' = Inr (Series (Floats lows))"
    "getitem ?t ''Volume'' = Inr (Series (Ints volumes))"
    by (simp_all add: getitem_def)
  have i: "float_iloc (Series (Floats xyz_closes)) (- 1) = Inr (Finite 109)"
    "float_iloc (Series (Floats xyz_closes)) 0 = Inr (Finite 100)"
    by (simp_all add: float_iloc_def py_index_def xyz_closes_def)
  have d: "fdiv (Finite 9) (Finite 100) = Inr (fquot (Finite 9) (Finite 100))"
    by (simp add: fdiv_def)
  have "calculate_metrics np_sum ?t =
      Inr (Finite 109, Finite 9, Finite 9, nanmax highs, nanmin lows, sint (sum_list volumes))"
    unfolding calculate_metrics_def c and_then_def i sum.case Let_def xyz_arithmetic d
      float_max_def float_min_def int_sum_def selection.case series.case
    by (rule refl)
  ultimately show ?thesis using n by (auto simp: tz_localize_UTC_def tz_convert_def)
qed

theorem xyz_scenario_witness:
  "None \<notin> Some ` set (flatten xyz_columns) \<and> length xyz_ts = 10
   \<and> length xyz_closes = 10 \<and> length xyz_highs = 10 \<and> length xyz_lows = 10
   \<and> length xyz_volumes = 10
   \<and> (\<exists>t high low volume.
         normalizer (xyz_raw None xyz_ts xyz_closes xyz_highs xyz_lows xyz_volumes) = Inr t
       \<and> len t = 10
       \<and> getitem t ''Datetime'' = Inr (Series (Datetimes (Some ''US/Eastern'') xyz_ts))
       \<and> calculate_metrics left_sum t = Inr (Finite 109, Finite 9, Finite 9, high, low, volume))"
proof -
  have n: "None \<notin> Some ` set (flatten xyz_columns)" by simp
  have l: "length xyz_ts = 10" "length xyz_closes = 10" "length xyz_highs = 10"
    "length xyz_lows = 10" "length xyz_volumes = 10"
    by (simp_all add: xyz_ts_def xyz_closes_def xyz_highs_def xyz_lows_def xyz_volumes_def)
  from xyz_scenario [OF n l, of left_sum] n l show ?thesis by blast
qed

end
